theory Spec2Isabelle
  imports Complex_Main
begin

section \<open>Strings\<close>

text \<open>
  A JavaScript string is a sequence of UTF-16 code units. \<open>utf16\<close> writes an ASCII
  literal as such a sequence.
\<close>

type_synonym jsstring = "nat list"

definition utf16 :: "string \<Rightarrow> jsstring" where
  "utf16 s = map of_char s"

text \<open>
  The code units that \<^verbatim>\<open>String.prototype.trim\<close> strips: ECMAScript's WhiteSpace
  (TAB, VT, FF, ZWNBSP and the Unicode space separators) and LineTerminator.
\<close>

definition isWhiteSpace :: "nat \<Rightarrow> bool" where
  "isWhiteSpace c \<longleftrightarrow>
     c \<in> {9, 10, 11, 12, 13, 32, 160, 5760, 8232, 8233, 8239, 8287, 12288, 65279}
     \<or> (8192 \<le> c \<and> c \<le> 8202)"

definition trim :: "jsstring \<Rightarrow> jsstring" where
  "trim s = rev (dropWhile isWhiteSpace (rev (dropWhile isWhiteSpace s)))"


section \<open>Data model (types.ts)\<close>

datatype Sender = user | ai | status

text \<open>
  The pending fragment of a live session is \<^verbatim>\<open>{sender, text}\<close>; a transcript entry
  (\<^verbatim>\<open>Transcription\<close>, and \<^verbatim>\<open>Message\<close> with its narrower sender) has an \<^verbatim>\<open>id\<close> on
  top of these, as the spread \<^verbatim>\<open>{...liveTranscriptRef.current, id: Date.now()}\<close> builds it.
  Identifiers are JavaScript numbers (\<^verbatim>\<open>Date.now() + Math.random()\<close>).
\<close>

record LiveTranscript =
  sender :: Sender
  text' :: jsstring

record Transcription = LiveTranscript +
  id' :: real

record ProgressData =
  points :: int
  streak :: int
  lastPracticeDate :: "int option"
  speakingSessions :: int
  writingSessions :: int

datatype ConversationType = speak | write'

text \<open>
  \<^verbatim>\<open>saveConversation\<close> takes a conversation without \<^verbatim>\<open>id\<close> and \<^verbatim>\<open>date\<close> and adds
  both. A date is held as the instant it denotes, in milliseconds since the epoch: the
  strings are those of \<^verbatim>\<open>toISOString\<close>, which \<^verbatim>\<open>new Date(s).getTime()\<close> reads back.
\<close>

record Conversation =
  type' :: ConversationType
  transcript :: "Transcription list"

record SavedConversation = Conversation +
  sc_id :: int
  sc_date :: int

text \<open>
  A resumable live session. \<open>cs_id\<close> and \<open>name\<close> are absent in the object that
  \<^verbatim>\<open>handleSave\<close> builds by spreading a null \<^verbatim>\<open>activeSession\<close>.
\<close>

record ContinuableSession =
  cs_id :: "int option"
  name :: "jsstring option"
  cs_date :: int
  cs_transcript :: "Transcription list"


section \<open>Local storage\<close>

text \<open>
  What \<^verbatim>\<open>localStorage.getItem\<close> finds under a key: nothing, a text that
  \<^verbatim>\<open>JSON.parse\<close> rejects (or that is not a value of the expected shape), or the JSON of
  a value. \<^verbatim>\<open>JSON.stringify\<close> followed by \<^verbatim>\<open>JSON.parse\<close> gives back the numbers
  and strings of these records unchanged.
\<close>

datatype 'a item = Absent | Corrupt | Stored 'a

text \<open>
  \<open>writable\<close> is false when \<^verbatim>\<open>localStorage.setItem\<close> throws (quota exceeded, storage
  disabled).
\<close>

record Storage =
  progressItem :: "ProgressData item"
  historyItem :: "SavedConversation list item"
  sessionsItem :: "ContinuableSession list item"
  writable :: bool


section \<open>Gamification counter (lib/gamification.ts)\<close>

definition getDefaultProgress :: ProgressData where
  "getDefaultProgress =
     \<lparr>points = 0, streak = 0, lastPracticeDate = None, speakingSessions = 0,
      writingSessions = 0\<rparr>"

definition getProgress :: "Storage \<Rightarrow> ProgressData" where
  "getProgress st =
     (case progressItem st of
        Stored p \<Rightarrow> p
      | Absent \<Rightarrow> getDefaultProgress
      | Corrupt \<Rightarrow> getDefaultProgress)"

definition saveProgress :: "ProgressData \<Rightarrow> Storage \<Rightarrow> Storage" where
  "saveProgress progress st =
     (if writable st then st\<lparr>progressItem := Stored progress\<rparr> else st)"

definition addPoints :: "int \<Rightarrow> Storage \<Rightarrow> Storage" where
  "addPoints amount st =
     (let progress = getProgress st
      in saveProgress (progress\<lparr>points := points progress + amount\<rparr>) st)"

definition incrementSpeakingSessions :: "Storage \<Rightarrow> Storage" where
  "incrementSpeakingSessions st =
     (let progress = getProgress st
      in saveProgress (progress\<lparr>speakingSessions := speakingSessions progress + 1\<rparr>) st)"

definition incrementWritingSessions :: "Storage \<Rightarrow> Storage" where
  "incrementWritingSessions st =
     (let progress = getProgress st
      in saveProgress (progress\<lparr>writingSessions := writingSessions progress + 1\<rparr>) st)"


text \<open>
  Calendar dates. \<^verbatim>\<open>toISOString().split('T')[0]\<close> is the UTC date of an instant, held
  here as its day number since the epoch. \<open>LocalTZA\<close> is ECMAScript's local time zone
  adjustment of the host, in milliseconds: \<open>tza t True\<close> for a UTC instant \<open>t\<close>,
  \<open>tza t False\<close> for a local time value \<open>t\<close>.
\<close>

definition msPerDay :: int where
  "msPerDay = 86400000"

definition utcDate :: "int \<Rightarrow> int" where
  "utcDate t = t div msPerDay"

definition LocalTime :: "(int \<Rightarrow> bool \<Rightarrow> int) \<Rightarrow> int \<Rightarrow> int" where
  "LocalTime tza t = t + tza t True"

definition UTC :: "(int \<Rightarrow> bool \<Rightarrow> int) \<Rightarrow> int \<Rightarrow> int" where
  "UTC tza t = t - tza t False"

text \<open>
  \<^verbatim>\<open>d.setDate(d.getDate() - 1)\<close>: the local time of \<open>d\<close> moved one calendar day
  back, at the same local time of day, and converted back to an instant.
\<close>

definition setDatePrevious :: "(int \<Rightarrow> bool \<Rightarrow> int) \<Rightarrow> int \<Rightarrow> int" where
  "setDatePrevious tza t = UTC tza (LocalTime tza t - msPerDay)"

text \<open>
  \<^verbatim>\<open>updateStreak\<close>; \<open>now1\<close> and \<open>now2\<close> are the readings of its two \<^verbatim>\<open>new Date()\<close>.
\<close>

definition updateStreak :: "(int \<Rightarrow> bool \<Rightarrow> int) \<Rightarrow> int \<Rightarrow> int \<Rightarrow> Storage \<Rightarrow> Storage" where
  "updateStreak tza now1 now2 st =
     (let progress = getProgress st;
          today = utcDate now1
      in if lastPracticeDate progress = Some today then st
         else
           let yesterdayStr = utcDate (setDatePrevious tza now2);
               progress1 =
                 (if lastPracticeDate progress = Some yesterdayStr
                  then progress\<lparr>streak := streak progress + 1\<rparr>
                  else progress\<lparr>streak := 1\<rparr>)
           in saveProgress (progress1\<lparr>lastPracticeDate := Some today\<rparr>) st)"


section \<open>Saved conversations (lib/history.ts)\<close>

text \<open>
  \<^verbatim>\<open>Array.prototype.sort\<close> is stable and orders by the comparator, here the dates
  descending.
\<close>

definition getSavedConversations :: "Storage \<Rightarrow> SavedConversation list" where
  "getSavedConversations st =
     (case historyItem st of
        Stored conversations \<Rightarrow> sort_key (\<lambda>c. - sc_date c) conversations
      | Absent \<Rightarrow> sort_key (\<lambda>c. - sc_date c) []
      | Corrupt \<Rightarrow> [])"

text \<open>\<open>nowId\<close> is the reading of \<^verbatim>\<open>Date.now()\<close>, \<open>nowDate\<close> that of \<^verbatim>\<open>new Date()\<close>.\<close>

definition saveConversation :: "Conversation \<Rightarrow> int \<Rightarrow> int \<Rightarrow> Storage \<Rightarrow> Storage" where
  "saveConversation conversation nowId nowDate st =
     (let history = getSavedConversations st;
          newConversation = Conversation.extend conversation \<lparr>sc_id = nowId, sc_date = nowDate\<rparr>
      in if writable st then st\<lparr>historyItem := Stored (newConversation # history)\<rparr> else st)"

definition clearHistory :: "Storage \<Rightarrow> Storage" where
  "clearHistory st = st\<lparr>historyItem := Absent\<rparr>"


section \<open>Live practice: state and server messages (components/LivePractice.tsx)\<close>

datatype error =
  RangeError | NotSupportedError | SyntaxError | QuotaExceededError | TypeError
  | InvalidCharacterError

record AudioBuffer =
  length' :: nat
  sampleRate :: nat
  channelData :: "real list list"

record PlayingSource =
  startAt :: real
  buffer :: AudioBuffer

text \<open>
  The component's state and refs that the handlers below read and write, with the
  browser's \<^verbatim>\<open>localStorage\<close>. \<open>audioReady\<close> stands for
  \<^verbatim>\<open>outputAudioContext.current && aiAnalyserRef.current\<close>; \<open>sources\<close> is the set of
  buffer sources in insertion order.
\<close>

record LivePractice =
  transcriptionHistory :: "Transcription list"
  liveTranscript :: "LiveTranscript option"
  activeSession :: "ContinuableSession option"
  nextStartTime :: real
  sources :: "PlayingSource list"
  audioReady :: bool
  localStorage :: Storage

text \<open>
  What \<^verbatim>\<open>message.serverContent?.modelTurn?.parts[0]?.inlineData.data\<close> finds.
  \<open>NoAudio\<close>: the expression is undefined or the empty string (no model turn, an empty
  list of parts, no data). \<open>NoInlineData\<close>: the model turn has no list of parts, or its
  first part has no \<^verbatim>\<open>inlineData\<close>, and the expression throws a TypeError.
  \<open>InvalidBase64\<close>: a string that \<^verbatim>\<open>decode\<close> (the browser's \<^verbatim>\<open>atob\<close>) rejects.
  \<open>Base64\<close>: a base64 string, held as the bytes that \<^verbatim>\<open>decode\<close> makes of it.
\<close>

datatype InlineAudio = NoAudio | NoInlineData | InvalidBase64 | Base64 "nat list"

text \<open>The fields of \<^verbatim>\<open>message.serverContent\<close> that \<^verbatim>\<open>onmessage\<close> reads.\<close>

record LiveServerMessage =
  outputTranscription :: "jsstring option"
  inputTranscription :: "jsstring option"
  turnComplete :: bool
  audio :: InlineAudio
  interrupted :: bool


section \<open>Transcript reconciler\<close>

text \<open>
  \<open>fresh\<close> is the value of \<^verbatim>\<open>Date.now() + Math.random()\<close> at the call.
\<close>

definition addTranscription :: "real \<Rightarrow> Sender \<Rightarrow> jsstring \<Rightarrow> LivePractice \<Rightarrow> LivePractice" where
  "addTranscription fresh sd t s =
     (if trim t = [] then s
      else s\<lparr>transcriptionHistory :=
               transcriptionHistory s @ [\<lparr>sender = sd, text' = t, id' = fresh\<rparr>]\<rparr>)"

definition awardPoints :: "int \<Rightarrow> LivePractice \<Rightarrow> LivePractice" where
  "awardPoints amount s = s\<lparr>localStorage := addPoints amount (localStorage s)\<rparr>"

text \<open>
  The three state updaters of \<^verbatim>\<open>onmessage\<close>. The first two return the local flag
  \<^verbatim>\<open>turnCommittedOnSwitch\<close> with the new state; the third reads it.
\<close>

definition onOutputTranscription :: "real \<Rightarrow> jsstring \<Rightarrow> LivePractice \<Rightarrow> bool \<times> LivePractice" where
  "onOutputTranscription fresh textChunk s =
     (case liveTranscript s of
        None \<Rightarrow> (False, s\<lparr>liveTranscript := Some \<lparr>sender = ai, text' = [] @ textChunk\<rparr>\<rparr>)
      | Some prev \<Rightarrow>
          if sender prev = user
          then (True, (awardPoints 5 (addTranscription fresh user (text' prev) s))
                        \<lparr>liveTranscript := Some \<lparr>sender = ai, text' = textChunk\<rparr>\<rparr>)
          else (False, s\<lparr>liveTranscript :=
                  Some \<lparr>sender = ai,
                        text' = (if sender prev = ai then text' prev else []) @ textChunk\<rparr>\<rparr>))"

definition onInputTranscription :: "real \<Rightarrow> jsstring \<Rightarrow> LivePractice \<Rightarrow> bool \<times> LivePractice" where
  "onInputTranscription fresh textChunk s =
     (case liveTranscript s of
        None \<Rightarrow> (False, s\<lparr>liveTranscript := Some \<lparr>sender = user, text' = [] @ textChunk\<rparr>\<rparr>)
      | Some prev \<Rightarrow>
          if sender prev = ai
          then (True, (addTranscription fresh ai (text' prev) s)
                        \<lparr>liveTranscript := Some \<lparr>sender = user, text' = textChunk\<rparr>\<rparr>)
          else (False, s\<lparr>liveTranscript :=
                  Some \<lparr>sender = user,
                        text' = (if sender prev = user then text' prev else []) @ textChunk\<rparr>\<rparr>))"

definition onTurnComplete :: "real \<Rightarrow> bool \<Rightarrow> LivePractice \<Rightarrow> LivePractice" where
  "onTurnComplete fresh turnCommittedOnSwitch s =
     (case liveTranscript s of
        None \<Rightarrow> s
      | Some prev \<Rightarrow>
          if text' prev \<noteq> [] \<and> \<not> turnCommittedOnSwitch
          then (let s1 = addTranscription fresh (sender prev) (text' prev) s
                in if sender prev = user then awardPoints 5 s1 else s1)
          else s)
     \<lparr>liveTranscript := None\<rparr>"

definition reconcile :: "real \<Rightarrow> LiveServerMessage \<Rightarrow> LivePractice \<Rightarrow> LivePractice" where
  "reconcile fresh message s =
     (let (turnCommittedOnSwitch, s1) =
            (case outputTranscription message of
               Some textChunk \<Rightarrow> onOutputTranscription fresh textChunk s
             | None \<Rightarrow>
                 (case inputTranscription message of
                    Some textChunk \<Rightarrow> onInputTranscription fresh textChunk s
                  | None \<Rightarrow> (False, s)))
      in if turnComplete message then onTurnComplete fresh turnCommittedOnSwitch s1 else s1)"


section \<open>Audio encoding and decoding\<close>

text \<open>
  Storing a number into an \<^verbatim>\<open>Int16Array\<close> applies ECMAScript's ToInt16: truncate
  towards zero, reduce modulo \<open>2^16\<close>, read as two's complement. Microphone samples are
  32-bit floats, and the products and quotients by \<open>32768\<close> below are exact on them, so
  the arithmetic is the one on the reals.
\<close>

definition truncate' :: "real \<Rightarrow> int" where
  "truncate' x = (if x < 0 then \<lceil>x\<rceil> else \<lfloor>x\<rfloor>)"

definition ToInt16 :: "real \<Rightarrow> int" where
  "ToInt16 x =
     (let int16bit = truncate' x mod 65536
      in if int16bit \<ge> 32768 then int16bit - 65536 else int16bit)"

text \<open>
  \<^verbatim>\<open>new Uint8Array(int16.buffer)\<close> and \<^verbatim>\<open>new Int16Array(data.buffer)\<close>: the two
  bytes of each element, low byte first.
\<close>

definition int16Bytes :: "int \<Rightarrow> nat list" where
  "int16Bytes v = (let u = nat (v mod 65536) in [u mod 256, u div 256])"

fun int16ArrayOfBytes :: "nat list \<Rightarrow> int list" where
  "int16ArrayOfBytes (lo # hi # rest) =
     (let u = int lo + 256 * int hi
      in (if u \<ge> 32768 then u - 65536 else u) # int16ArrayOfBytes rest)"
| "int16ArrayOfBytes _ = []"

text \<open>
  \<^verbatim>\<open>createBlob\<close>, up to the bytes it hands to \<^verbatim>\<open>encode\<close> (base64, which
  \<^verbatim>\<open>decode\<close> undoes on the other side).
\<close>

definition createBlob :: "real list \<Rightarrow> nat list" where
  "createBlob data = concat (map (\<lambda>x. int16Bytes (ToInt16 (x * 32768))) data)"

text \<open>
  \<^verbatim>\<open>decodeAudioData\<close>. The \<^verbatim>\<open>Int16Array\<close> constructor throws a RangeError on an
  odd number of bytes, and \<^verbatim>\<open>createBuffer\<close> a NotSupportedError on zero channels or
  zero frames. The frame count is the whole number of frames the data holds; the code
  calls the function with one channel, where the division is exact.
\<close>

definition decodeAudioData :: "nat list \<Rightarrow> nat \<Rightarrow> nat \<Rightarrow> error + AudioBuffer" where
  "decodeAudioData data rate numChannels =
     (if odd (length data) then Inl RangeError
      else
        let dataInt16 = int16ArrayOfBytes data;
            frameCount = length dataInt16 div numChannels
        in if numChannels = 0 \<or> frameCount = 0 then Inl NotSupportedError
           else Inr \<lparr>length' = frameCount, sampleRate = rate,
                     channelData =
                       map (\<lambda>channel.
                              map (\<lambda>i. real_of_int (dataInt16 ! (i * numChannels + channel)) / 32768)
                                [0..<frameCount])
                         [0..<numChannels]\<rparr>)"

definition duration :: "AudioBuffer \<Rightarrow> real" where
  "duration b = real (length' b) / real (sampleRate b)"


section \<open>Playback scheduling and the message handler\<close>

text \<open>
  The audio part of \<^verbatim>\<open>onmessage\<close>; \<open>currentTime\<close> is the output context's clock when
  the message is handled. Reading the chunk can throw before anything else is done;
  \<^verbatim>\<open>decode\<close> and \<^verbatim>\<open>decodeAudioData\<close> can throw with the cursor already clamped. In
  each case the handler's promise rejects.
\<close>

definition playAudio :: "real \<Rightarrow> LiveServerMessage \<Rightarrow> LivePractice \<Rightarrow> error option \<times> LivePractice" where
  "playAudio currentTime message s =
     (case audio message of
        NoAudio \<Rightarrow> (None, s)
      | NoInlineData \<Rightarrow> (Some TypeError, s)
      | InvalidBase64 \<Rightarrow>
          if \<not> audioReady s then (None, s)
          else (Some InvalidCharacterError,
                s\<lparr>nextStartTime := max (nextStartTime s) currentTime\<rparr>)
      | Base64 bytes \<Rightarrow>
          if \<not> audioReady s then (None, s)
          else
            let s1 = s\<lparr>nextStartTime := max (nextStartTime s) currentTime\<rparr>
            in (case decodeAudioData bytes 24000 1 of
                  Inl e \<Rightarrow> (Some e, s1)
                | Inr audioBuffer \<Rightarrow>
                    (None,
                     s1\<lparr>sources := sources s1 @
                           [\<lparr>startAt = nextStartTime s1, buffer = audioBuffer\<rparr>],
                        nextStartTime := nextStartTime s1 + duration audioBuffer\<rparr>)))"

definition onInterrupted :: "LiveServerMessage \<Rightarrow> LivePractice \<Rightarrow> LivePractice" where
  "onInterrupted message s =
     (if interrupted message then s\<lparr>sources := [], nextStartTime := 0\<rparr> else s)"

text \<open>
  \<^verbatim>\<open>onmessage\<close>: the reconciler, then the audio chunk, then the interruption, which is
  not reached when the audio part throws. The result is the state the handler leaves,
  with the error when its promise rejects.
\<close>

definition onmessage :: "real \<Rightarrow> real \<Rightarrow> LiveServerMessage \<Rightarrow> LivePractice \<Rightarrow> error option \<times> LivePractice" where
  "onmessage fresh currentTime message s =
     (let s1 = reconcile fresh message s;
          (failure, s2) = playAudio currentTime message s1
      in (case failure of
            Some e \<Rightarrow> (Some e, s2)
          | None \<Rightarrow> (None, onInterrupted message s2)))"

text \<open>The handler run over the messages of a session, each with its two clock readings.\<close>

fun onmessages :: "(real \<times> real \<times> LiveServerMessage) list \<Rightarrow> LivePractice \<Rightarrow> LivePractice" where
  "onmessages [] s = s"
| "onmessages ((fresh, currentTime, message) # rest) s =
     onmessages rest (snd (onmessage fresh currentTime message s))"


section \<open>Live practice: starting, ending and saving a session\<close>

text \<open>The component as mounted, over the browser's storage.\<close>

definition mount :: "Storage \<Rightarrow> LivePractice" where
  "mount st =
     \<lparr>transcriptionHistory = [], liveTranscript = None, activeSession = None,
      nextStartTime = 0, sources = [], audioReady = False, localStorage = st\<rparr>"

text \<open>
  \<^verbatim>\<open>startSession\<close>, when the microphone and the audio contexts are obtained.
\<close>

definition startSession :: "ContinuableSession \<Rightarrow> LivePractice \<Rightarrow> LivePractice" where
  "startSession sessionToStart s =
     s\<lparr>activeSession := Some sessionToStart,
       transcriptionHistory := cs_transcript sessionToStart,
       liveTranscript := None,
       audioReady := True\<rparr>"

definition handleStartNewSession :: "int \<Rightarrow> int \<Rightarrow> LivePractice \<Rightarrow> LivePractice" where
  "handleStartNewSession nowId nowDate s =
     startSession
       \<lparr>cs_id = Some nowId,
        name = Some [2472, 2468, 2497, 2472, 32, 2437, 2472, 2497, 2486, 2496, 2482, 2472, 32,
                     2488, 2503, 2486, 2472],
        cs_date = nowDate, cs_transcript = []\<rparr> s"

fun findIndex :: "('a \<Rightarrow> bool) \<Rightarrow> 'a list \<Rightarrow> nat option" where
  "findIndex P [] = None"
| "findIndex P (x # xs) =
     (if P x then Some 0 else map_option Suc (findIndex P xs))"

text \<open>
  The transcript that \<^verbatim>\<open>endSession\<close> assembles: the pending fragment is trimmed, and
  kept only when something is left.
\<close>

definition finalHistory :: "real \<Rightarrow> LivePractice \<Rightarrow> Transcription list" where
  "finalHistory fresh s =
     transcriptionHistory s @
       (case liveTranscript s of
          None \<Rightarrow> []
        | Some live \<Rightarrow>
            if trim (text' live) \<noteq> []
            then [\<lparr>sender = sender live, text' = trim (text' live), id' = fresh\<rparr>]
            else [])"

text \<open>
  The checkpoint that \<^verbatim>\<open>endSession\<close> writes when the component unmounts; a failure
  to parse or to write is caught and logged.
\<close>

definition autoSave :: "Transcription list \<Rightarrow> int \<Rightarrow> int \<Rightarrow> LivePractice \<Rightarrow> Storage" where
  "autoSave history nowId nowDate s =
     (let st = localStorage s
      in case sessionsItem st of
           Corrupt \<Rightarrow> st
         | item \<Rightarrow>
             let sessions = (case item of Stored ss \<Rightarrow> ss | _ \<Rightarrow> []);
                 existingSessionIndex =
                   (case activeSession s of
                      None \<Rightarrow> None
                    | Some currentSession \<Rightarrow>
                        findIndex (\<lambda>x. cs_id x = cs_id currentSession) sessions);
                 sessions1 =
                   (case existingSessionIndex of
                      Some i \<Rightarrow>
                        sessions[i := (sessions ! i)\<lparr>cs_transcript := history, cs_date := nowDate\<rparr>]
                    | None \<Rightarrow>
                        sessions @
                          [\<lparr>cs_id = Some nowId,
                            name = Some [2437, 2472, 2497, 2486, 2496, 2482, 2472, 32, 2488, 2503,
                                         2486, 2472],
                            cs_date = nowDate, cs_transcript = history\<rparr>])
             in if writable st then st\<lparr>sessionsItem := Stored sessions1\<rparr> else st)"

definition endSession :: "bool \<Rightarrow> bool \<Rightarrow> real \<Rightarrow> int \<Rightarrow> int \<Rightarrow> LivePractice \<Rightarrow> LivePractice" where
  "endSession isUnmounting skipSave fresh nowId nowDate s =
     (let s0 = s\<lparr>audioReady := False\<rparr>;
          wasActive = (activeSession s \<noteq> None);
          history = finalHistory fresh s
      in if isUnmounting \<and> wasActive \<and> \<not> skipSave
         then (if filter (\<lambda>t. sender t \<noteq> status) history \<noteq> []
               then s0\<lparr>localStorage := autoSave history nowId nowDate s\<rparr>
               else s0)
         else s0\<lparr>liveTranscript := None, activeSession := None\<rparr>)"

text \<open>
  The clock readings of \<^verbatim>\<open>handleSave\<close>, in the order of the calls: the entry's
  \<^verbatim>\<open>Date.now()\<close>, the two of \<^verbatim>\<open>saveConversation\<close>, the two of \<^verbatim>\<open>updateStreak\<close>,
  and the session's \<^verbatim>\<open>new Date()\<close>.
\<close>

record SaveClock =
  entryNow :: int
  conversationId :: int
  conversationDate :: int
  streakNow1 :: int
  streakNow2 :: int
  sessionDate :: int

text \<open>
  The transcript that \<^verbatim>\<open>handleSave\<close> assembles: the pending fragment as it is, when
  its text is not the empty string.
\<close>

definition finalTranscript :: "int \<Rightarrow> LivePractice \<Rightarrow> Transcription list" where
  "finalTranscript now s =
     transcriptionHistory s @
       (case liveTranscript s of
          None \<Rightarrow> []
        | Some live \<Rightarrow>
            if text' live \<noteq> [] then [LiveTranscript.extend live \<lparr>id' = real_of_int now\<rparr>]
            else [])"

text \<open>
  \<^verbatim>\<open>handleSave\<close>, up to the timer it sets. The sessions are parsed and written outside
  any \<^verbatim>\<open>try\<close>: an unparsable item or a refused write ends the handler with the error.
\<close>

definition handleSave :: "(int \<Rightarrow> bool \<Rightarrow> int) \<Rightarrow> SaveClock \<Rightarrow> LivePractice \<Rightarrow> error option \<times> LivePractice" where
  "handleSave tza clock s =
     (let transcript1 = finalTranscript (entryNow clock) s;
          st1 = saveConversation \<lparr>type' = speak, transcript = transcript1\<rparr>
                  (conversationId clock) (conversationDate clock) (localStorage s);
          st2 = incrementSpeakingSessions st1;
          st3 = updateStreak tza (streakNow1 clock) (streakNow2 clock) st2;
          s3 = s\<lparr>localStorage := st3\<rparr>
      in case sessionsItem st3 of
           Corrupt \<Rightarrow> (Some SyntaxError, s3)
         | item \<Rightarrow>
             let sessions = (case item of Stored ss \<Rightarrow> ss | _ \<Rightarrow> []);
                 existingSessionIndex =
                   (case activeSession s of
                      None \<Rightarrow> None
                    | Some currentSession \<Rightarrow>
                        findIndex (\<lambda>x. cs_id x = cs_id currentSession) sessions);
                 sessionToSave =
                   (case activeSession s of
                      None \<Rightarrow>
                        \<lparr>cs_id = None, name = None, cs_date = sessionDate clock,
                         cs_transcript = transcript1\<rparr>
                    | Some currentSession \<Rightarrow>
                        currentSession\<lparr>cs_transcript := transcript1,
                                         cs_date := sessionDate clock\<rparr>);
                 sessions1 =
                   (case existingSessionIndex of
                      Some i \<Rightarrow> sessions[i := sessionToSave]
                    | None \<Rightarrow> sessions @ [sessionToSave])
             in if writable st3 then (None, s3\<lparr>localStorage := st3\<lparr>sessionsItem := Stored sessions1\<rparr>\<rparr>)
                else (Some QuotaExceededError, s3))"


section \<open>Chat practice (the ChatPractice component)\<close>

text \<open>
  \<open>chat\<close> tells whether the chat object has been created. A streamed reply is the chunks
  that arrive and whether the stream then throws; a request that is rejected at once is a
  stream that throws before its first chunk.
\<close>

record ChatPractice =
  chat :: bool
  messages :: "Transcription list"
  currentInput :: jsstring
  isLoading :: bool
  storage :: Storage

record ResponseStream =
  chunks :: "jsstring list"
  throws :: bool

text \<open>
  The clock readings of \<^verbatim>\<open>handleSendMessage\<close>: the user message's \<^verbatim>\<open>Date.now()\<close>,
  the one behind \<^verbatim>\<open>aiMessageId\<close>, the one of the fallback message, and the two of
  \<^verbatim>\<open>updateStreak\<close>.
\<close>

record SendClock =
  userNow :: int
  aiNow :: int
  errorNow :: int
  sendStreakNow1 :: int
  sendStreakNow2 :: int

text \<open>The text of the message that the \<^verbatim>\<open>catch\<close> block appends.\<close>

definition fallbackMessage :: jsstring where
  "fallbackMessage = utf16 ''I'm so'' @ utf16 ''rry, I encountered an error. Please try again.''"

text \<open>The updater run for each chunk, with the reply text assembled so far.\<close>

definition setAiMessage :: "real \<Rightarrow> jsstring \<Rightarrow> Transcription list \<Rightarrow> Transcription list" where
  "setAiMessage aiMessageId aiResponseText prev =
     (case find (\<lambda>m. id' m = aiMessageId) prev of
        Some existingAiMessage \<Rightarrow>
          map (\<lambda>m. if id' m = aiMessageId then m\<lparr>text' := aiResponseText\<rparr> else m) prev
      | None \<Rightarrow> prev @ [\<lparr>sender = ai, text' = aiResponseText, id' = aiMessageId\<rparr>])"

fun readStream :: "real \<Rightarrow> jsstring \<Rightarrow> jsstring list \<Rightarrow> Transcription list \<Rightarrow> Transcription list" where
  "readStream aiMessageId aiResponseText [] prev = prev"
| "readStream aiMessageId aiResponseText (chunk # rest) prev =
     readStream aiMessageId (aiResponseText @ chunk) rest
       (setAiMessage aiMessageId (aiResponseText @ chunk) prev)"

definition handleSendMessage :: "(int \<Rightarrow> bool \<Rightarrow> int) \<Rightarrow> SendClock \<Rightarrow> ResponseStream \<Rightarrow> ChatPractice \<Rightarrow> ChatPractice" where
  "handleSendMessage tza clock responseStream s =
     (if trim (currentInput s) = [] \<or> \<not> chat s \<or> isLoading s then s
      else
        let userMessage = \<lparr>sender = user, text' = currentInput s, id' = real_of_int (userNow clock)\<rparr>;
            s1 = s\<lparr>messages := messages s @ [userMessage], currentInput := [], isLoading := True\<rparr>;
            aiMessageId = real_of_int (aiNow clock) + 1;
            s2 = s1\<lparr>messages := readStream aiMessageId [] (chunks responseStream) (messages s1)\<rparr>;
            s3 = (if throws responseStream
                  then s2\<lparr>messages := messages s2 @
                            [\<lparr>sender = ai, text' = fallbackMessage,
                              id' = real_of_int (errorNow clock)\<rparr>]\<rparr>
                  else s2\<lparr>storage :=
                            updateStreak tza (sendStreakNow1 clock) (sendStreakNow2 clock)
                              (addPoints 10 (storage s2))\<rparr>)
        in s3\<lparr>isLoading := False\<rparr>)"


section \<open>Notions used in the properties\<close>

text \<open>
  The fragment a server message carries: its speaker when the message carries exactly
  one transcription, and the text that \<^verbatim>\<open>onmessage\<close> reads as \<^verbatim>\<open>textChunk\<close>.
\<close>

definition fragmentSpeaker :: "LiveServerMessage \<Rightarrow> Sender option" where
  "fragmentSpeaker m =
     (case (outputTranscription m, inputTranscription m) of
        (Some t, None) \<Rightarrow> Some ai
      | (None, Some t) \<Rightarrow> Some user
      | _ \<Rightarrow> None)"

definition fragmentText :: "LiveServerMessage \<Rightarrow> jsstring" where
  "fragmentText m =
     (case outputTranscription m of
        Some t \<Rightarrow> t
      | None \<Rightarrow> (case inputTranscription m of Some t \<Rightarrow> t | None \<Rightarrow> []))"

text \<open>Every transcription of the message is whitespace only.\<close>

definition blankFragments :: "LiveServerMessage \<Rightarrow> bool" where
  "blankFragments m \<longleftrightarrow>
     (case outputTranscription m of Some t \<Rightarrow> trim t = [] | None \<Rightarrow> True) \<and>
     (case inputTranscription m of Some t \<Rightarrow> trim t = [] | None \<Rightarrow> True)"

text \<open>There is no pending entry, or its text is whitespace only.\<close>

definition blankPending :: "LivePractice \<Rightarrow> bool" where
  "blankPending s \<longleftrightarrow>
     (case liveTranscript s of None \<Rightarrow> True | Some live \<Rightarrow> trim (text' live) = [])"

text \<open>Messages that carry one signal each.\<close>

definition userFragment :: "jsstring \<Rightarrow> LiveServerMessage" where
  "userFragment t =
     \<lparr>outputTranscription = None, inputTranscription = Some t, turnComplete = False,
      audio = NoAudio, interrupted = False\<rparr>"

definition assistantFragment :: "jsstring \<Rightarrow> LiveServerMessage" where
  "assistantFragment t =
     \<lparr>outputTranscription = Some t, inputTranscription = None, turnComplete = False,
      audio = NoAudio, interrupted = False\<rparr>"

definition turnCompleteMessage :: LiveServerMessage where
  "turnCompleteMessage =
     \<lparr>outputTranscription = None, inputTranscription = None, turnComplete = True,
      audio = NoAudio, interrupted = False\<rparr>"

definition audioChunk :: "nat list \<Rightarrow> LiveServerMessage" where
  "audioChunk bytes =
     \<lparr>outputTranscription = None, inputTranscription = None, turnComplete = False,
      audio = Base64 bytes, interrupted = False\<rparr>"

text \<open>A browser storage with nothing in it, and a new live session over it.\<close>

definition emptyStorage :: Storage where
  "emptyStorage =
     \<lparr>progressItem = Absent, historyItem = Absent, sessionsItem = Absent, writable = True\<rparr>"

definition newSession :: LivePractice where
  "newSession = handleStartNewSession 1000 1000 (mount emptyStorage)"

text \<open>
  The text of the user's pending entry that a message finalizes, if it finalizes one:
  at a switch to an assistant fragment, or at a turn-complete that finds the user's
  pending text (with the message's own user fragment) non-empty.
\<close>

definition finalizedUserText :: "LiveServerMessage \<Rightarrow> LivePractice \<Rightarrow> jsstring option" where
  "finalizedUserText m s =
     (case outputTranscription m of
        Some chunk \<Rightarrow>
          (case liveTranscript s of
             None \<Rightarrow> None
           | Some prev \<Rightarrow> if sender prev = user then Some (text' prev) else None)
      | None \<Rightarrow>
          if \<not> turnComplete m then None
          else
            (case inputTranscription m of
               None \<Rightarrow>
                 (case liveTranscript s of
                    None \<Rightarrow> None
                  | Some prev \<Rightarrow>
                      if sender prev = user \<and> text' prev \<noteq> [] then Some (text' prev) else None)
             | Some chunk \<Rightarrow>
                 (case liveTranscript s of
                    None \<Rightarrow> if chunk \<noteq> [] then Some chunk else None
                  | Some prev \<Rightarrow>
                      if sender prev = ai then None
                      else
                        let t = (if sender prev = user then text' prev else []) @ chunk
                        in if t \<noteq> [] then Some t else None)))"

text \<open>
  Playback: a scheduled buffer plays from \<open>startAt\<close> for its duration. In a
  \<open>scheduled\<close> state no two buffers of \<open>sources\<close> overlap and none ends after the
  cursor.
\<close>

definition endAt :: "PlayingSource \<Rightarrow> real" where
  "endAt p = startAt p + duration (buffer p)"

definition scheduled :: "LivePractice \<Rightarrow> bool" where
  "scheduled s \<longleftrightarrow>
     sorted_wrt (\<lambda>p q. endAt p \<le> startAt q) (sources s) \<and>
     list_all (\<lambda>p. endAt p \<le> nextStartTime s) (sources s)"

text \<open>
  The local time zone adjustment of a host in America/New_York around the end of
  daylight saving time on 2026-11-01 (06:00 UTC, 02:00 local): four hours behind UTC
  before, five hours after.
\<close>

definition newYork :: "int \<Rightarrow> bool \<Rightarrow> int" where
  "newYork t isUTC =
     (if isUTC then (if t < 1793512800000 then - 14400000 else - 18000000)
      else (if t < 1793498400000 then - 14400000 else - 18000000))"


section \<open>Properties of the transcript reconciler\<close>

lemma dropWhile_all: "(\<forall>x\<in>set (dropWhile P xs). P x) \<longleftrightarrow> dropWhile P xs = []"
  by (induction xs) auto

lemma trim_empty_iff: "trim s = [] \<longleftrightarrow> (\<forall>c\<in>set s. isWhiteSpace c)"
  by (simp add: trim_def dropWhile_eq_Nil_conv dropWhile_all)

lemma trim_Nil: "trim [] = []"
  by (simp add: trim_def)

lemma trim_append_empty: "trim (a @ b) = [] \<longleftrightarrow> trim a = [] \<and> trim b = []"
  by (auto simp: trim_empty_iff)

text \<open>The audio part of the handler leaves the transcript, the pending entry and the
  storage as the reconciler set them.\<close>

lemma history_onmessage:
  "transcriptionHistory (snd (onmessage f c m s)) = transcriptionHistory (reconcile f m s)"
  by (simp add: onmessage_def playAudio_def onInterrupted_def Let_def
      split: option.splits sum.splits prod.splits InlineAudio.splits)

lemma live_onmessage:
  "liveTranscript (snd (onmessage f c m s)) = liveTranscript (reconcile f m s)"
  by (simp add: onmessage_def playAudio_def onInterrupted_def Let_def
      split: option.splits sum.splits prod.splits InlineAudio.splits)

lemma storage_onmessage:
  "localStorage (snd (onmessage f c m s)) = localStorage (reconcile f m s)"
  by (simp add: onmessage_def playAudio_def onInterrupted_def Let_def
      split: option.splits sum.splits prod.splits InlineAudio.splits)

lemma onmessages_append: "onmessages (xs @ ys) s = onmessages ys (onmessages xs s)"
  by (induction xs arbitrary: s) auto

lemma blank_reconcile:
  assumes "blankPending s" "blankFragments m"
  shows "transcriptionHistory (reconcile f m s) = transcriptionHistory s \<and>
         blankPending (reconcile f m s)"
  using assms
  by (auto simp: reconcile_def blankPending_def blankFragments_def onOutputTranscription_def
      onInputTranscription_def onTurnComplete_def addTranscription_def awardPoints_def Let_def
      trim_append_empty trim_Nil
      split: option.splits if_splits)

text \<open>
  C8. When every transcription of every message is whitespace only, and the pending
  entry at the start is absent (as in a session just started) or whitespace only, the
  handler never appends an entry to the transcript, whatever turn-complete, speaker
  switches, audio and interruptions the messages carry.
\<close>

theorem whitespace_fragments_never_finalized:
  assumes "blankPending s" and "\<forall>(f, c, m) \<in> set evs. blankFragments m"
  shows "transcriptionHistory (onmessages evs s) = transcriptionHistory s"
  using assms
proof (induction evs arbitrary: s)
  case Nil
  then show ?case by simp
next
  case (Cons ev evs)
  obtain f c m where ev: "ev = (f, c, m)" by (cases ev) auto
  let ?s1 = "snd (onmessage f c m s)"
  from Cons.prems ev have m: "blankFragments m" by simp
  have h: "transcriptionHistory ?s1 = transcriptionHistory s"
    using blank_reconcile[OF Cons.prems(1) m] by (simp add: history_onmessage)
  have b: "blankPending ?s1"
    using blank_reconcile[OF Cons.prems(1) m, of f] by (simp add: blankPending_def live_onmessage)
  have "transcriptionHistory (onmessages evs ?s1) = transcriptionHistory ?s1"
    using Cons.IH[OF b] Cons.prems(2) by simp
  then show ?case using h ev by simp
qed

text \<open>A space from the user, a tab and a line feed from the assistant, turn-complete.\<close>

theorem whitespace_fragments_never_finalized_witness:
  "transcriptionHistory
     (onmessages
        [(1, 0, userFragment (utf16 '' '')), (2, 0, assistantFragment [9, 10]),
         (3, 0, turnCompleteMessage)] newSession) = []"
  using whitespace_fragments_never_finalized [of newSession
      "[(1, 0, userFragment (utf16 '' '')), (2, 0, assistantFragment [9, 10]),
         (3, 0, turnCompleteMessage)]"]
  by (simp add: newSession_def handleStartNewSession_def startSession_def mount_def
      userFragment_def assistantFragment_def turnCompleteMessage_def blankFragments_def
      blankPending_def utf16_def trim_def isWhiteSpace_def)

text \<open>A fragment of the pending entry's speaker, or of any speaker when nothing is
  pending, is appended to the pending text and changes nothing else.\<close>

lemma fragment_reconcile:
  assumes "fragmentSpeaker m = Some sp" "\<not> turnComplete m"
    and "liveTranscript s = None \<or> liveTranscript s = Some \<lparr>sender = sp, text' = acc\<rparr>"
  shows "reconcile f m s =
         s\<lparr>liveTranscript := Some \<lparr>sender = sp,
              text' = (if liveTranscript s = None then [] else acc) @ fragmentText m\<rparr>\<rparr>"
  using assms
  by (auto simp: reconcile_def fragmentSpeaker_def fragmentText_def onOutputTranscription_def
      onInputTranscription_def Let_def split: option.splits if_splits)

lemma fragments_onmessages:
  assumes "\<forall>(f, c, m) \<in> set evs. fragmentSpeaker m = Some sp \<and> \<not> turnComplete m"
    and "evs \<noteq> []"
    and "liveTranscript s = None \<or> liveTranscript s = Some \<lparr>sender = sp, text' = acc\<rparr>"
  shows "transcriptionHistory (onmessages evs s) = transcriptionHistory s \<and>
         localStorage (onmessages evs s) = localStorage s \<and>
         liveTranscript (onmessages evs s) =
           Some \<lparr>sender = sp,
                 text' = (if liveTranscript s = None then [] else acc) @
                         concat (map (\<lambda>(f, c, m). fragmentText m) evs)\<rparr>"
  using assms
proof (induction evs arbitrary: s acc)
  case Nil
  then show ?case by simp
next
  case (Cons ev evs)
  obtain f c m where ev: "ev = (f, c, m)" by (cases ev) auto
  let ?s1 = "snd (onmessage f c m s)"
  let ?acc1 = "(if liveTranscript s = None then [] else acc) @ fragmentText m"
  from Cons.prems(1) ev have m: "fragmentSpeaker m = Some sp" "\<not> turnComplete m" by auto
  have r: "reconcile f m s = s\<lparr>liveTranscript := Some \<lparr>sender = sp, text' = ?acc1\<rparr>\<rparr>"
    by (rule fragment_reconcile[OF m Cons.prems(3)])
  have h1: "transcriptionHistory ?s1 = transcriptionHistory s"
    and st1: "localStorage ?s1 = localStorage s"
    and l1: "liveTranscript ?s1 = Some \<lparr>sender = sp, text' = ?acc1\<rparr>"
    by (simp_all add: history_onmessage storage_onmessage live_onmessage r)
  show ?case
  proof (cases "evs = []")
    case True
    then show ?thesis using h1 st1 l1 ev by simp
  next
    case False
    have "\<forall>(f, c, m) \<in> set evs. fragmentSpeaker m = Some sp \<and> \<not> turnComplete m"
      using Cons.prems(1) by simp
    from Cons.IH[OF this False, of ?s1 ?acc1] l1
    show ?thesis using h1 st1 ev by simp
  qed
qed

lemma turn_complete_reconcile:
  assumes "outputTranscription m = None" "inputTranscription m = None" "turnComplete m"
    and "liveTranscript s = Some live"
    and "trim (text' live) \<noteq> []"
  shows "transcriptionHistory (reconcile f m s) =
           transcriptionHistory s @ [\<lparr>sender = sender live, text' = text' live, id' = f\<rparr>]"
    and "liveTranscript (reconcile f m s) = None"
  using assms
  by (auto simp: reconcile_def onTurnComplete_def addTranscription_def awardPoints_def Let_def
      trim_Nil)

text \<open>
  C1, as the code has it. Start with no pending entry; deliver fragments that all carry
  the same speaker, none with turn-complete, and then a turn-complete. When the
  concatenation of the fragments' texts is not whitespace only, the handler appends
  exactly one entry to the transcript: that speaker's, with the concatenation, untrimmed,
  as its text; and nothing is left pending.
\<close>

theorem same_speaker_fragments_one_entry:
  assumes "liveTranscript s = None"
    and "\<forall>(f, c, m) \<in> set evs. fragmentSpeaker m = Some sp \<and> \<not> turnComplete m"
    and "outputTranscription mt = None \<and> inputTranscription mt = None \<and> turnComplete mt"
    and "trim (concat (map (\<lambda>(f, c, m). fragmentText m) evs)) \<noteq> []"
  shows "transcriptionHistory (onmessages (evs @ [(f, c, mt)]) s) =
           transcriptionHistory s @
             [\<lparr>sender = sp, text' = concat (map (\<lambda>(f, c, m). fragmentText m) evs), id' = f\<rparr>]
         \<and> liveTranscript (onmessages (evs @ [(f, c, mt)]) s) = None"
proof -
  let ?t = "concat (map (\<lambda>(f, c, m). fragmentText m) evs)"
  have ne: "evs \<noteq> []" using assms(4) by (auto simp: trim_Nil)
  let ?s1 = "onmessages evs s"
  have a: "transcriptionHistory ?s1 = transcriptionHistory s"
    and l: "liveTranscript ?s1 = Some \<lparr>sender = sp, text' = ?t\<rparr>"
    using fragments_onmessages[OF assms(2) ne, of s "[]"] assms(1) by simp_all
  have "trim (text' \<lparr>sender = sp, text' = ?t\<rparr>) \<noteq> []" using assms(4) by simp
  from turn_complete_reconcile[OF _ _ _ l this, of mt f] assms(3) a
  show ?thesis
    by (simp add: onmessages_append history_onmessage live_onmessage)
qed

text \<open>The user says "I go", then " school"; turn-complete follows.\<close>

theorem same_speaker_fragments_one_entry_witness:
  "transcriptionHistory
     (onmessages
        [(1, 0, userFragment (utf16 ''I go'')), (2, 0, userFragment (utf16 '' school'')),
         (3, 0, turnCompleteMessage)] newSession) =
   [\<lparr>sender = user, text' = utf16 ''I go school'', id' = 3\<rparr>]"
  using same_speaker_fragments_one_entry [of newSession
      "[(1, 0, userFragment (utf16 ''I go'')), (2, 0, userFragment (utf16 '' school''))]"
      user turnCompleteMessage 3 0]
  by (simp add: newSession_def handleStartNewSession_def startSession_def mount_def
      userFragment_def turnCompleteMessage_def fragmentSpeaker_def fragmentText_def utf16_def
      trim_def isWhiteSpace_def)

text \<open>
  One user fragment holding a single space, then turn-complete: no entry is appended,
  where C1 as stated asks for one entry with the text " ".
\<close>

theorem single_space_fragment_no_entry:
  "transcriptionHistory
     (onmessages [(1, 0, userFragment (utf16 '' '')), (2, 0, turnCompleteMessage)] newSession) = []"
  by (simp add: newSession_def handleStartNewSession_def startSession_def mount_def
      userFragment_def turnCompleteMessage_def onmessage_def reconcile_def playAudio_def
      onInterrupted_def onInputTranscription_def onTurnComplete_def addTranscription_def
      awardPoints_def utf16_def trim_def isWhiteSpace_def Let_def)


subsection \<open>Speaker switches\<close>

text \<open>
  A fragment of the other speaker, in a message without turn-complete: the pending
  entry goes to the transcript unless its text is whitespace only, and the new pending
  entry is the new speaker's with the fragment as its text.
\<close>

lemma speaker_switch_reconcile:
  assumes "fragmentSpeaker m = Some sp" "\<not> turnComplete m"
    and "liveTranscript s = Some prev" "sender prev \<noteq> sp" "sender prev \<noteq> status"
  shows "transcriptionHistory (reconcile f m s) =
           transcriptionHistory s @
             (if trim (text' prev) = [] then []
              else [\<lparr>sender = sender prev, text' = text' prev, id' = f\<rparr>])"
    and "liveTranscript (reconcile f m s) = Some \<lparr>sender = sp, text' = fragmentText m\<rparr>"
  using assms
  by (cases "sender prev"; auto simp: reconcile_def fragmentSpeaker_def fragmentText_def
      onOutputTranscription_def onInputTranscription_def addTranscription_def awardPoints_def
      Let_def split: option.splits if_splits)+

text \<open>
  A message that carries an assistant fragment and turn-complete, with nothing pending:
  the fragment becomes an entry.
\<close>

lemma fragment_with_turn_complete_no_switch:
  "transcriptionHistory
     (onmessages
        [(2, 0, (assistantFragment (utf16 ''Hello''))\<lparr>turnComplete := True\<rparr>)] newSession) =
     [\<lparr>sender = ai, text' = utf16 ''Hello'', id' = 2\<rparr>]"
  by (simp add: newSession_def handleStartNewSession_def startSession_def mount_def
      userFragment_def assistantFragment_def onmessage_def reconcile_def playAudio_def
      onInterrupted_def onInputTranscription_def onOutputTranscription_def onTurnComplete_def
      addTranscription_def awardPoints_def utf16_def trim_def isWhiteSpace_def Let_def)

text \<open>
  C2. The user's "hi" is pending when a message brings the assistant's fragment "Hello"
  together with turn-complete. The switch sets \<^verbatim>\<open>turnCommittedOnSwitch\<close> and commits
  "hi"; the turn-complete updater then finds the flag set, commits nothing and clears
  the pending entry. "Hello" is in neither the transcript nor the pending entry.
\<close>

theorem switch_with_turn_complete_drops_fragment:
  "transcriptionHistory
     (onmessages
        [(1, 0, userFragment (utf16 ''hi'')),
         (2, 0, (assistantFragment (utf16 ''Hello''))\<lparr>turnComplete := True\<rparr>)] newSession) =
     [\<lparr>sender = user, text' = utf16 ''hi'', id' = 2\<rparr>]
   \<and> liveTranscript
     (onmessages
        [(1, 0, userFragment (utf16 ''hi'')),
         (2, 0, (assistantFragment (utf16 ''Hello''))\<lparr>turnComplete := True\<rparr>)] newSession) = None"
  by (simp add: newSession_def handleStartNewSession_def startSession_def mount_def
      userFragment_def assistantFragment_def onmessage_def reconcile_def playAudio_def
      onInterrupted_def onInputTranscription_def onOutputTranscription_def onTurnComplete_def
      addTranscription_def awardPoints_def utf16_def trim_def isWhiteSpace_def Let_def)


subsection \<open>Points\<close>

lemma getProgress_saveProgress:
  "writable st \<Longrightarrow> getProgress (saveProgress p st) = p"
  by (simp add: saveProgress_def getProgress_def)

lemma points_addPoints:
  "writable st \<Longrightarrow> points (getProgress (addPoints n st)) = points (getProgress st) + n"
  by (simp add: addPoints_def Let_def getProgress_saveProgress)

text \<open>
  C4, as the code has it. With a storage that takes the write, handling a message adds 5
  to the points exactly when the message finalizes a pending entry of the user, and
  nothing otherwise. The finalized text becomes a user entry of the transcript when it
  is not whitespace only; when it is, the 5 points are given and no entry is appended.
\<close>

theorem points_on_finalized_user_turn:
  assumes "writable (localStorage s)"
  shows "points (getProgress (localStorage (snd (onmessage f c m s)))) =
           points (getProgress (localStorage s)) +
             (case finalizedUserText m s of Some t \<Rightarrow> 5 | None \<Rightarrow> 0)
         \<and> filter (\<lambda>e. sender e = user) (transcriptionHistory (snd (onmessage f c m s))) =
           filter (\<lambda>e. sender e = user) (transcriptionHistory s) @
             (case finalizedUserText m s of
                Some t \<Rightarrow> if trim t = [] then [] else [\<lparr>sender = user, text' = t, id' = f\<rparr>]
              | None \<Rightarrow> [])"
  using assms
  apply (simp only: storage_onmessage history_onmessage)
  apply (cases "outputTranscription m"; cases "inputTranscription m"; cases "liveTranscript s";
      cases "turnComplete m")
                 apply (auto simp: reconcile_def finalizedUserText_def onOutputTranscription_def
      onInputTranscription_def onTurnComplete_def addTranscription_def awardPoints_def Let_def
      points_addPoints trim_Nil split: if_splits)
  done

text \<open>Turn-complete after the user's "I go": 5 points and the entry.\<close>

theorem points_on_finalized_user_turn_witness:
  "points (getProgress (localStorage
       (snd (onmessage 2 0 turnCompleteMessage
          (onmessages [(1, 0, userFragment (utf16 ''I go''))] newSession))))) = 5
   \<and> filter (\<lambda>e. sender e = user) (transcriptionHistory
       (snd (onmessage 2 0 turnCompleteMessage
          (onmessages [(1, 0, userFragment (utf16 ''I go''))] newSession)))) =
     [\<lparr>sender = user, text' = utf16 ''I go'', id' = 2\<rparr>]"
  using points_on_finalized_user_turn
    [of "onmessages [(1, 0, userFragment (utf16 ''I go''))] newSession" 2 0 turnCompleteMessage]
  by (simp add: newSession_def handleStartNewSession_def startSession_def mount_def
      emptyStorage_def userFragment_def turnCompleteMessage_def onmessage_def reconcile_def
      playAudio_def onInterrupted_def onInputTranscription_def finalizedUserText_def
      getProgress_def getDefaultProgress_def
      utf16_def trim_def isWhiteSpace_def Let_def)

text \<open>
  Turn-complete after a user fragment holding a single space: the points go from 0 to 5
  and no entry is committed, where C4 as stated ties the 5 points to a committed entry.
\<close>

theorem blank_user_turn_awarded:
  "points (getProgress (localStorage newSession)) = 0
   \<and> points (getProgress (localStorage
       (onmessages [(1, 0, userFragment (utf16 '' '')), (2, 0, turnCompleteMessage)] newSession))) = 5
   \<and> transcriptionHistory
       (onmessages [(1, 0, userFragment (utf16 '' '')), (2, 0, turnCompleteMessage)] newSession) = []"
  by (simp add: newSession_def handleStartNewSession_def startSession_def mount_def
      emptyStorage_def userFragment_def turnCompleteMessage_def onmessage_def reconcile_def
      playAudio_def onInterrupted_def onInputTranscription_def onTurnComplete_def
      addTranscription_def awardPoints_def addPoints_def saveProgress_def
      getProgress_def getDefaultProgress_def
      utf16_def trim_def isWhiteSpace_def Let_def)


section \<open>Properties of the streak update\<close>

lemma setDatePrevious_fixed_offset:
  "setDatePrevious (\<lambda>t isUTC. k) now = now - msPerDay"
  by (simp add: setDatePrevious_def UTC_def LocalTime_def)

lemma utcDate_previous: "utcDate (now - msPerDay) = utcDate now - 1"
  by (simp add: utcDate_def msPerDay_def)

lemma updateStreak_today:
  "lastPracticeDate (getProgress st) = Some (utcDate now1) \<Longrightarrow>
   updateStreak tza now1 now2 st = st"
  by (simp add: updateStreak_def Let_def)

text \<open>
  When the date computed for yesterday is the UTC date before today's, and the storage
  takes the write, the update is the three-way rule: nothing for today, one more for the
  day before, 1 for anything else.
\<close>

lemma updateStreak_cases:
  assumes "writable st"
    and "utcDate (setDatePrevious tza now2) = utcDate now1 - 1"
  shows "getProgress (updateStreak tza now1 now2 st) =
     (let progress = getProgress st; today = utcDate now1
      in if lastPracticeDate progress = Some today then progress
         else if lastPracticeDate progress = Some (today - 1)
         then progress\<lparr>streak := streak progress + 1, lastPracticeDate := Some today\<rparr>
         else progress\<lparr>streak := 1, lastPracticeDate := Some today\<rparr>)"
  using assms
  by (simp add: updateStreak_def Let_def getProgress_saveProgress)

text \<open>That is so wherever the local time is a fixed offset from UTC.\<close>

lemma updateStreak_fixed_offset:
  assumes "writable st"
  shows "getProgress (updateStreak (\<lambda>t isUTC. k) now now st) =
     (let progress = getProgress st; today = utcDate now
      in if lastPracticeDate progress = Some today then progress
         else if lastPracticeDate progress = Some (today - 1)
         then progress\<lparr>streak := streak progress + 1, lastPracticeDate := Some today\<rparr>
         else progress\<lparr>streak := 1, lastPracticeDate := Some today\<rparr>)"
  by (rule updateStreak_cases [OF assms])
    (simp add: setDatePrevious_fixed_offset utcDate_previous)

text \<open>
  C3. A host in New York at 2026-11-02T00:30Z (19:30 local time on 1 November, the day
  the clocks went back), a record with streak 3 whose last practice date is 2026-11-01,
  the UTC day before today's. \<^verbatim>\<open>setDate\<close> moves the local time back to 19:30 on 31
  October, which is 23:30 UTC of 31 October: the date computed for yesterday is two days
  before today's, the stored date matches neither, and the streak is set to 1.
\<close>

theorem streak_reset_after_clock_change:
  "utcDate 1793579400000 = 20759
   \<and> getProgress
       (updateStreak newYork 1793579400000 1793579400000
          (emptyStorage\<lparr>progressItem :=
             Stored \<lparr>points = 40, streak = 3, lastPracticeDate = Some 20758,
                     speakingSessions = 2, writingSessions = 0\<rparr>\<rparr>)) =
     \<lparr>points = 40, streak = 1, lastPracticeDate = Some 20759,
      speakingSessions = 2, writingSessions = 0\<rparr>"
  by (simp add: updateStreak_def Let_def getProgress_def saveProgress_def emptyStorage_def
      utcDate_def msPerDay_def setDatePrevious_def UTC_def LocalTime_def newYork_def)

text \<open>At the same instant a last practice date two days back continues the streak.\<close>

lemma streak_continued_two_days_after:
  "getProgress
       (updateStreak newYork 1793579400000 1793579400000
          (emptyStorage\<lparr>progressItem :=
             Stored \<lparr>points = 40, streak = 3, lastPracticeDate = Some 20757,
                     speakingSessions = 2, writingSessions = 0\<rparr>\<rparr>)) =
     \<lparr>points = 40, streak = 4, lastPracticeDate = Some 20759,
      speakingSessions = 2, writingSessions = 0\<rparr>"
  by (simp add: updateStreak_def Let_def getProgress_def saveProgress_def emptyStorage_def
      utcDate_def msPerDay_def setDatePrevious_def UTC_def LocalTime_def newYork_def)


section \<open>Properties of the audio encoding\<close>

text \<open>ToInt16 lands in the 16-bit signed range, and the two bytes give the value back.\<close>

lemma ToInt16_range: "- 32768 \<le> ToInt16 x \<and> ToInt16 x < 32768"
proof -
  have "0 \<le> truncate' x mod 65536" "truncate' x mod 65536 < 65536" by simp_all
  then show ?thesis by (auto simp: ToInt16_def Let_def)
qed

lemma int16_roundtrip:
  assumes "- 32768 \<le> v" "v < 32768"
  shows "int16ArrayOfBytes (int16Bytes v @ rest) = v # int16ArrayOfBytes rest"
proof -
  let ?u = "nat (v mod 65536)"
  have u: "int ?u = v mod 65536" by simp
  have "int (?u mod 256) + 256 * int (?u div 256) = int ?u"
    by (simp add: zmod_int zdiv_int del: int_nat_eq)
  then have e: "int (?u mod 256) + 256 * int (?u div 256) = v mod 65536" using u by simp
  have w: "(if v mod 65536 \<ge> 32768 then v mod 65536 - 65536 else v mod 65536) = v"
  proof (cases "v < 0")
    case True
    then have "v mod 65536 = v + 65536" using assms
      by (smt (verit) mod_add_self2 mod_pos_pos_trivial)
    then show ?thesis using True assms by simp
  next
    case False
    then have "v mod 65536 = v" using assms by simp
    then show ?thesis using assms by simp
  qed
  show ?thesis
    unfolding int16Bytes_def Let_def using e w by (simp add: Let_def)
qed

text \<open>
  Decoding what \<^verbatim>\<open>createBlob\<close> encoded gives, for each sample \<open>x\<close>, the value of
  ToInt16 at \<open>x * 32768\<close> divided by \<open>32768\<close>.
\<close>

lemma int16ArrayOfBytes_createBlob:
  "int16ArrayOfBytes (createBlob data) = map (\<lambda>x. ToInt16 (x * 32768)) data"
proof (induction data)
  case Nil
  then show ?case by (simp add: createBlob_def)
next
  case (Cons x xs)
  have "createBlob (x # xs) = int16Bytes (ToInt16 (x * 32768)) @ createBlob xs"
    by (simp add: createBlob_def)
  then show ?case
    using int16_roundtrip [of "ToInt16 (x * 32768)" "createBlob xs"] ToInt16_range [of "x * 32768"]
      Cons.IH by simp
qed

lemma length_createBlob: "length (createBlob data) = 2 * length data"
  by (induction data) (simp_all add: createBlob_def int16Bytes_def Let_def)

lemma decodeAudioData_createBlob:
  assumes "data \<noteq> []"
  shows "decodeAudioData (createBlob data) rate 1 =
         Inr \<lparr>length' = length data, sampleRate = rate,
              channelData = [map (\<lambda>x. real_of_int (ToInt16 (x * 32768)) / 32768) data]\<rparr>"
proof -
  let ?d = "map (\<lambda>x. ToInt16 (x * 32768)) data"
  have "map (\<lambda>i. real_of_int (?d ! i) / 32768) [0..<length data] =
        map (\<lambda>v. real_of_int v / 32768) ?d"
    by (rule nth_equalityI) simp_all
  then show ?thesis
    using assms
    by (simp add: decodeAudioData_def int16ArrayOfBytes_createBlob length_createBlob Let_def
        comp_def)
qed

text \<open>
  For a sample in \<open>[-1, 1)\<close> nothing wraps, and the round trip is within one step of the
  16-bit quantization.
\<close>

lemma truncate_error: "\<bar>real_of_int (truncate' y) - y\<bar> < 1"
  unfolding truncate'_def by (auto; linarith)

lemma ToInt16_no_wrap:
  assumes "- 32768 \<le> y" "y < 32768"
  shows "ToInt16 y = truncate' y"
proof -
  have "- 32768 \<le> truncate' y \<and> truncate' y < 32768"
    using assms unfolding truncate'_def by (auto; linarith)
  then show ?thesis
    using int16_roundtrip [of "truncate' y" "[]"] 
    by (auto simp: ToInt16_def Let_def; smt (verit) mod_add_self2 mod_pos_pos_trivial)
qed

lemma quantization_error:
  assumes "- 1 \<le> x" "x < 1"
  shows "\<bar>real_of_int (ToInt16 (x * 32768)) / 32768 - x\<bar> < 1 / 32768"
proof -
  have "ToInt16 (x * 32768) = truncate' (x * 32768)"
    using assms by (intro ToInt16_no_wrap) auto
  moreover have "\<bar>real_of_int (truncate' (x * 32768)) - x * 32768\<bar> < 1"
    by (rule truncate_error)
  ultimately show ?thesis by (simp add: field_simps abs_if split: if_splits)
qed

text \<open>
  C6. The sample \<open>1.0\<close>: \<open>1.0 * 32768 = 32768\<close> is one more than the largest 16-bit
  signed integer and ToInt16 wraps it to \<open>-32768\<close> (bytes \<open>00 80\<close>); decoding gives
  \<open>-1.0\<close>, the full-scale sample with its sign inverted.
\<close>

theorem full_scale_sample_wraps:
  "createBlob [1] = [0, 128]
   \<and> decodeAudioData (createBlob [1]) 24000 1 =
     Inr \<lparr>length' = 1, sampleRate = 24000, channelData = [ [- 1] ]\<rparr>"
  by (simp add: createBlob_def ToInt16_def truncate'_def int16Bytes_def decodeAudioData_def
      Let_def)


section \<open>Properties of the playback scheduling\<close>

lemma duration_nonneg: "0 \<le> duration b"
  by (simp add: duration_def)

text \<open>The reconciler leaves the playback state alone.\<close>

lemma playback_reconcile:
  "sources (reconcile f m s) = sources s"
  "nextStartTime (reconcile f m s) = nextStartTime s"
  "audioReady (reconcile f m s) = audioReady s"
  by (auto simp: reconcile_def onOutputTranscription_def onInputTranscription_def
      onTurnComplete_def addTranscription_def awardPoints_def Let_def
      split: option.splits if_splits)

text \<open>A chunk that decodes is scheduled at the clamped cursor, and the cursor moves by its
  duration.\<close>

lemma playAudio_chunk:
  assumes "audio m = Base64 bytes" "audioReady s" "decodeAudioData bytes 24000 1 = Inr b"
  shows "playAudio ct m s =
     (None, s\<lparr>sources := sources s @ [\<lparr>startAt = max (nextStartTime s) ct, buffer = b\<rparr>],
              nextStartTime := max (nextStartTime s) ct + duration b\<rparr>)"
  using assms by (simp add: playAudio_def Let_def)

lemma onmessage_chunk:
  assumes "audio m = Base64 bytes" "audioReady s" "decodeAudioData bytes 24000 1 = Inr b"
  shows "onmessage f ct m s =
     (None,
      onInterrupted m
        ((reconcile f m s)
           \<lparr>sources := sources s @ [\<lparr>startAt = max (nextStartTime s) ct, buffer = b\<rparr>],
            nextStartTime := max (nextStartTime s) ct + duration b\<rparr>))"
  using playAudio_chunk [of m bytes "reconcile f m s" b ct] assms
  by (simp add: onmessage_def Let_def playback_reconcile)

text \<open>An interruption carried by the same message stops the chunk just scheduled.\<close>

lemma audio_chunk_interrupted:
  assumes "audio m = Base64 bytes" "audioReady s" "decodeAudioData bytes 24000 1 = Inr b"
    and "interrupted m"
  shows "sources (snd (onmessage f ct m s)) = [] \<and> nextStartTime (snd (onmessage f ct m s)) = 0"
  using assms(4) by (simp add: onmessage_chunk [OF assms(1,2,3)] onInterrupted_def)

text \<open>A part without inline data ends the handler before the audio and the interruption
  are looked at.\<close>

lemma onmessage_no_inline_data:
  "audio m = NoInlineData \<Longrightarrow> onmessage f ct m s = (Some TypeError, reconcile f m s)"
  by (simp add: onmessage_def playAudio_def Let_def)

text \<open>Every step of the handler keeps the state \<open>scheduled\<close>.\<close>

lemma scheduled_append:
  assumes "scheduled s" "nextStartTime s \<le> start"
  shows "scheduled (s\<lparr>sources := sources s @ [\<lparr>startAt = start, buffer = b\<rparr>],
                     nextStartTime := start + duration b\<rparr>)"
proof -
  have d: "0 \<le> duration b" by (rule duration_nonneg)
  have e: "\<forall>p\<in>set (sources s). endAt p \<le> nextStartTime s"
    using assms(1) by (simp add: scheduled_def list_all_iff)
  then have "\<forall>p\<in>set (sources s). endAt p \<le> start" using assms(2) by fastforce
  moreover have "\<forall>p\<in>set (sources s). endAt p \<le> start + duration b"
    using e assms(2) d by fastforce
  ultimately show ?thesis
    using assms(1) d by (simp add: scheduled_def sorted_wrt_append list_all_iff endAt_def)
qed

lemma scheduled_clamp:
  assumes "scheduled s" "nextStartTime s \<le> t"
  shows "scheduled (s\<lparr>nextStartTime := t\<rparr>)"
  using assms by (fastforce simp: scheduled_def list_all_iff)

lemma scheduled_playAudio:
  assumes "scheduled s"
  shows "scheduled (snd (playAudio ct m s))"
proof (cases "audio m")
  case NoAudio
  then show ?thesis using assms by (simp add: playAudio_def)
next
  case NoInlineData
  then show ?thesis using assms by (simp add: playAudio_def)
next
  case InvalidBase64
  then show ?thesis
    using assms scheduled_clamp [OF assms, of "max (nextStartTime s) ct"]
    by (simp add: playAudio_def)
next
  case (Base64 bytes)
  show ?thesis
  proof (cases "audioReady s")
    case False
    then show ?thesis using assms Base64 by (simp add: playAudio_def)
  next
    case True
    show ?thesis
    proof (cases "decodeAudioData bytes 24000 1")
      case (Inl e)
      then show ?thesis
        using Base64 True scheduled_clamp [OF assms, of "max (nextStartTime s) ct"]
        by (simp add: playAudio_def Let_def)
    next
      case (Inr b)
      then show ?thesis
        using playAudio_chunk [OF Base64 True Inr, of ct]
          scheduled_append [OF assms, of "max (nextStartTime s) ct" b]
        by simp
    qed
  qed
qed

lemma scheduled_reconcile: "scheduled (reconcile f m s) = scheduled s"
  by (simp add: scheduled_def playback_reconcile)

lemma scheduled_onInterrupted: "scheduled s \<Longrightarrow> scheduled (onInterrupted m s)"
  by (simp add: onInterrupted_def scheduled_def)

lemma scheduled_onmessage:
  assumes "scheduled s"
  shows "scheduled (snd (onmessage f ct m s))"
proof -
  have "scheduled (snd (playAudio ct m (reconcile f m s)))"
    using assms by (intro scheduled_playAudio) (simp add: scheduled_reconcile)
  then show ?thesis
    by (auto simp: onmessage_def Let_def scheduled_onInterrupted split: prod.splits option.splits)
qed

lemma scheduled_onmessages:
  "scheduled s \<Longrightarrow> scheduled (onmessages evs s)"
proof (induction evs arbitrary: s)
  case Nil
  then show ?case by simp
next
  case (Cons ev evs)
  obtain f c m where ev: "ev = (f, c, m)" by (cases ev) auto
  show ?case using Cons.IH [OF scheduled_onmessage [OF Cons.prems, of f c m] ] ev by simp
qed

lemma scheduled_mount: "scheduled (mount st)"
  by (simp add: scheduled_def mount_def)

text \<open>
  C5. In a state where no two scheduled buffers overlap and none ends after the cursor
  (as when the component is mounted), let the handler take a message with an audio chunk
  that decodes and no interruption, with the output context and the analyser in place,
  whatever else the message carries. The handler ends without error. It has scheduled
  the chunk at \<open>start\<close>, the larger of the cursor and the audio clock, after the
  buffers scheduled before, each of which ends by \<open>start\<close>; the cursor is \<open>start\<close> plus
  the buffer's duration; and no two scheduled buffers overlap, then and after any
  further messages.
\<close>

theorem audio_chunk_scheduling:
  assumes "scheduled s"
    and "audio m = Base64 bytes" and "audioReady s"
    and "decodeAudioData bytes 24000 1 = Inr b"
    and "\<not> interrupted m"
  shows "(let start = max (nextStartTime s) ct; s1 = snd (onmessage f ct m s)
          in fst (onmessage f ct m s) = None
             \<and> ct \<le> start \<and> nextStartTime s \<le> start
             \<and> sources s1 = sources s @ [\<lparr>startAt = start, buffer = b\<rparr>]
             \<and> nextStartTime s1 = start + duration b
             \<and> list_all (\<lambda>p. endAt p \<le> start) (sources s)
             \<and> scheduled s1
             \<and> scheduled (onmessages evs s1))"
proof -
  let ?start = "max (nextStartTime s) ct"
  let ?s1 = "snd (onmessage f ct m s)"
  have p: "onmessage f ct m s =
     (None,
      (reconcile f m s)
        \<lparr>sources := sources s @ [\<lparr>startAt = ?start, buffer = b\<rparr>],
         nextStartTime := ?start + duration b\<rparr>)"
    using onmessage_chunk [OF assms(2,3,4), of f ct] assms(5) by (simp add: onInterrupted_def)
  have e: "\<forall>p\<in>set (sources s). endAt p \<le> nextStartTime s"
    using assms(1) by (simp add: scheduled_def list_all_iff)
  then have before: "list_all (\<lambda>p. endAt p \<le> ?start) (sources s)"
    by (fastforce simp: list_all_iff)
  have s1: "scheduled ?s1" by (rule scheduled_onmessage [OF assms(1)])
  have "scheduled (onmessages evs ?s1)" by (rule scheduled_onmessages [OF s1])
  then show ?thesis using p before s1 by (simp add: Let_def)
qed

text \<open>Cursor at 2, clock at 5, a chunk of two frames in a message that also carries a
  fragment of the user.\<close>

theorem audio_chunk_scheduling_witness:
  "(let s = newSession\<lparr>nextStartTime := 2\<rparr>;
        s1 = snd (onmessage 1 5 ((userFragment (utf16 ''I go''))\<lparr>audio := Base64 [0, 64, 0, 192]\<rparr>) s)
    in sources s1 =
         [\<lparr>startAt = 5,
           buffer = \<lparr>length' = 2, sampleRate = 24000, channelData = [ [1 / 2, - 1 / 2] ]\<rparr>\<rparr>]
       \<and> nextStartTime s1 = 5 + 2 / 24000)"
  using audio_chunk_scheduling [of "newSession\<lparr>nextStartTime := 2\<rparr>"
      "(userFragment (utf16 ''I go''))\<lparr>audio := Base64 [0, 64, 0, 192]\<rparr>" "[0, 64, 0, 192]"
      "\<lparr>length' = 2, sampleRate = 24000, channelData = [ [1 / 2, - 1 / 2] ]\<rparr>" 5 1 "[]"]
  by (simp add: newSession_def handleStartNewSession_def startSession_def mount_def
      userFragment_def scheduled_def decodeAudioData_def duration_def Let_def)


section \<open>Properties of the saved conversations\<close>

text \<open>What is read back is ordered by date, newest first.\<close>

lemma sorted_wrt_sort_key_date:
  "sorted_wrt (\<lambda>a b. sc_date b \<le> sc_date a) (sort_key (\<lambda>c. - sc_date c) xs)"
  using sorted_sort_key [of "\<lambda>c. - sc_date c" xs] by (simp add: sorted_map)

lemma sorted_getSavedConversations:
  "sorted_wrt (\<lambda>a b. sc_date b \<le> sc_date a) (getSavedConversations st)"
  by (cases "historyItem st") (simp_all add: getSavedConversations_def sorted_wrt_sort_key_date)

lemma getSavedConversations_saveConversation:
  assumes "writable st"
  shows "getSavedConversations (saveConversation conversation nowId nowDate st) =
         sort_key (\<lambda>c. - sc_date c)
           (Conversation.extend conversation \<lparr>sc_id = nowId, sc_date = nowDate\<rparr> #
            getSavedConversations st)"
  using assms by (simp add: saveConversation_def getSavedConversations_def Let_def
      del: sort_key_simps)

text \<open>
  C7. Whatever the history item holds (nothing, an unparsable text, a list of
  conversations), when the storage takes the write, reading the collection after
  \<^verbatim>\<open>saveConversation\<close> gives a list that contains the conversation passed in, with
  its type and transcript as they were and the new id and date, next to every
  conversation read before and nothing else, ordered by date, newest first.
\<close>

theorem save_then_reload:
  assumes "writable st"
  shows "(let saved = getSavedConversations (saveConversation conversation nowId nowDate st)
          in Conversation.extend conversation \<lparr>sc_id = nowId, sc_date = nowDate\<rparr> \<in> set saved
             \<and> set (getSavedConversations st) \<subseteq> set saved
             \<and> length saved = Suc (length (getSavedConversations st))
             \<and> sorted_wrt (\<lambda>a b. sc_date b \<le> sc_date a) saved)"
  unfolding Let_def getSavedConversations_saveConversation [OF assms]
  by (auto simp: sorted_wrt_sort_key_date simp del: sort_key_simps)

text \<open>The record saved has the transcript and the type that were passed in.\<close>

lemma transcript_extend:
  "transcript (Conversation.extend conversation \<lparr>sc_id = i, sc_date = d\<rparr>) = transcript conversation
   \<and> type' (Conversation.extend conversation \<lparr>sc_id = i, sc_date = d\<rparr>) = type' conversation"
  by (simp add: Conversation.extend_def Conversation.defs)

text \<open>A conversation dated 2000 saved between two dated 1000 and 3000.\<close>

theorem save_then_reload_witness:
  "getSavedConversations
     (saveConversation
        \<lparr>type' = write', transcript = [\<lparr>sender = user, text' = utf16 ''hello'', id' = 7\<rparr>]\<rparr>
        2000 2000
        (emptyStorage\<lparr>historyItem :=
           Stored [\<lparr>type' = speak, transcript = [], sc_id = 1000, sc_date = 1000\<rparr>,
                   \<lparr>type' = speak, transcript = [], sc_id = 3000, sc_date = 3000\<rparr>]\<rparr>)) =
   [\<lparr>type' = speak, transcript = [], sc_id = 3000, sc_date = 3000\<rparr>,
    \<lparr>type' = write', transcript = [\<lparr>sender = user, text' = utf16 ''hello'', id' = 7\<rparr>],
      sc_id = 2000, sc_date = 2000\<rparr>,
    \<lparr>type' = speak, transcript = [], sc_id = 1000, sc_date = 1000\<rparr>]"
  using save_then_reload [of "emptyStorage\<lparr>historyItem :=
           Stored [\<lparr>type' = speak, transcript = [], sc_id = 1000, sc_date = 1000\<rparr>,
                   \<lparr>type' = speak, transcript = [], sc_id = 3000, sc_date = 3000\<rparr>]\<rparr>"
      "\<lparr>type' = write', transcript = [\<lparr>sender = user, text' = utf16 ''hello'', id' = 7\<rparr>]\<rparr>"
      2000 2000]
  by (simp add: emptyStorage_def saveConversation_def getSavedConversations_def Let_def
      Conversation.extend_def Conversation.defs SavedConversation.defs)


section \<open>Properties of the chat practice\<close>

text \<open>
  With an identifier that no message has yet, the chunks of a reply end up as one
  assistant message holding their concatenation.
\<close>

lemma setAiMessage_fresh:
  assumes "aiMessageId \<notin> id' ` set prev"
  shows "setAiMessage aiMessageId t prev = prev @ [\<lparr>sender = ai, text' = t, id' = aiMessageId\<rparr>]"
proof -
  have "find (\<lambda>m. id' m = aiMessageId) prev = None"
    using assms by (auto simp: find_None_iff)
  then show ?thesis by (simp add: setAiMessage_def)
qed

lemma setAiMessage_last:
  assumes "aiMessageId \<notin> id' ` set prev"
  shows "setAiMessage aiMessageId t (prev @ [\<lparr>sender = ai, text' = t0, id' = aiMessageId\<rparr>]) =
         prev @ [\<lparr>sender = ai, text' = t, id' = aiMessageId\<rparr>]"
proof -
  have "find (\<lambda>m. id' m = aiMessageId) (prev @ [\<lparr>sender = ai, text' = t0, id' = aiMessageId\<rparr>]) \<noteq> None"
    by (auto simp: find_None_iff)
  moreover have "map (\<lambda>m. if id' m = aiMessageId then m\<lparr>text' := t\<rparr> else m) prev = prev"
    using assms by (induction prev) auto
  ultimately show ?thesis by (auto simp: setAiMessage_def split: option.splits)
qed

lemma readStream_last:
  assumes "aiMessageId \<notin> id' ` set prev"
  shows "readStream aiMessageId acc cs (prev @ [\<lparr>sender = ai, text' = t0, id' = aiMessageId\<rparr>]) =
         prev @ [\<lparr>sender = ai, text' = (if cs = [] then t0 else acc @ concat cs), id' = aiMessageId\<rparr>]"
  using assms
proof (induction cs arbitrary: acc t0)
  case Nil
  then show ?case by simp
next
  case (Cons c cs)
  show ?case
    using Cons.IH [OF Cons.prems, of "acc @ c" "acc @ c"] setAiMessage_last [OF Cons.prems, of "acc @ c" t0]
    by simp
qed

lemma readStream_fresh:
  assumes "aiMessageId \<notin> id' ` set prev" "cs \<noteq> []"
  shows "readStream aiMessageId acc cs prev =
         prev @ [\<lparr>sender = ai, text' = acc @ concat cs, id' = aiMessageId\<rparr>]"
proof (cases cs)
  case Nil
  then show ?thesis using assms by simp
next
  case (Cons c rest)
  then show ?thesis
    using setAiMessage_fresh [OF assms(1), of "acc @ c"]
      readStream_last [OF assms(1), of "acc @ c" rest "acc @ c"]
    by simp
qed

text \<open>
  C9. A submission that the guard lets through, answered by a stream that throws after
  any number of chunks: the message list is the user's message, what was streamed, and
  then the fixed fallback message with the assistant as sender; the handler ends with
  \<open>isLoading\<close> false, the chat object in place and the storage untouched. The next
  submission of a non-blank input is taken: its user message and the assembled reply
  are appended.
\<close>

theorem stream_failure_fallback:
  assumes "trim (currentInput s) \<noteq> []" and "chat s" and "\<not> isLoading s"
    and "throws responseStream"
    and "s1 = handleSendMessage tza clock responseStream s"
    and "trim input \<noteq> []"
    and "\<not> throws reply" and "chunks reply \<noteq> []"
    and "real_of_int (aiNow clock2) + 1 \<notin> id' ` set (messages s1)"
    and "aiNow clock2 + 1 \<noteq> userNow clock2"
  shows "messages s1 =
           readStream (real_of_int (aiNow clock) + 1) [] (chunks responseStream)
             (messages s @
                [\<lparr>sender = user, text' = currentInput s, id' = real_of_int (userNow clock)\<rparr>]) @
           [\<lparr>sender = ai, text' = fallbackMessage, id' = real_of_int (errorNow clock)\<rparr>]
         \<and> \<not> isLoading s1 \<and> chat s1 \<and> storage s1 = storage s
         \<and> messages (handleSendMessage tza clock2 reply (s1\<lparr>currentInput := input\<rparr>)) =
             messages s1 @
               [\<lparr>sender = user, text' = input, id' = real_of_int (userNow clock2)\<rparr>,
                \<lparr>sender = ai, text' = concat (chunks reply),
                  id' = real_of_int (aiNow clock2) + 1\<rparr>]
         \<and> \<not> isLoading (handleSendMessage tza clock2 reply (s1\<lparr>currentInput := input\<rparr>))"
proof -
  have first: "messages s1 =
           readStream (real_of_int (aiNow clock) + 1) [] (chunks responseStream)
             (messages s @
                [\<lparr>sender = user, text' = currentInput s, id' = real_of_int (userNow clock)\<rparr>]) @
           [\<lparr>sender = ai, text' = fallbackMessage, id' = real_of_int (errorNow clock)\<rparr>]"
    and l: "\<not> isLoading s1" and c: "chat s1" and st: "storage s1 = storage s"
    using assms(1-5) by (simp_all add: handleSendMessage_def Let_def)
  let ?u = "\<lparr>sender = user, text' = input, id' = real_of_int (userNow clock2)\<rparr>"
  have fresh: "real_of_int (aiNow clock2) + 1 \<notin> id' ` set (messages s1 @ [?u])"
  proof -
    have "real_of_int (aiNow clock2) + 1 \<noteq> real_of_int (userNow clock2)"
      using assms(10) by (metis of_int_1 of_int_add of_int_eq_iff)
    then show ?thesis using assms(9) by auto
  qed
  have "readStream (real_of_int (aiNow clock2) + 1) [] (chunks reply) (messages s1 @ [?u]) =
        (messages s1 @ [?u]) @
          [\<lparr>sender = ai, text' = [] @ concat (chunks reply), id' = real_of_int (aiNow clock2) + 1\<rparr>]"
    by (rule readStream_fresh [OF fresh assms(8)])
  then have second:
    "messages (handleSendMessage tza clock2 reply (s1\<lparr>currentInput := input\<rparr>)) =
       messages s1 @ [?u, \<lparr>sender = ai, text' = concat (chunks reply),
                           id' = real_of_int (aiNow clock2) + 1\<rparr>]"
    and l2: "\<not> isLoading (handleSendMessage tza clock2 reply (s1\<lparr>currentInput := input\<rparr>))"
    using l c assms(6,7) by (simp_all add: handleSendMessage_def Let_def)
  show ?thesis using first l c st second l2 by simp
qed

text \<open>A reply that breaks after "You", then a second submission answered "OK".\<close>

theorem stream_failure_fallback_witness:
  "(let s = \<lparr>chat = True,
              messages = [\<lparr>sender = ai, text' = utf16 ''Hello!'', id' = 10\<rparr>],
              currentInput = utf16 ''I go school'', isLoading = False, storage = emptyStorage\<rparr>;
        s1 = handleSendMessage (\<lambda>t isUTC. 0)
               \<lparr>userNow = 20, aiNow = 30, errorNow = 40, sendStreakNow1 = 50, sendStreakNow2 = 50\<rparr>
               \<lparr>chunks = [utf16 ''You''], throws = True\<rparr> s;
        s2 = handleSendMessage (\<lambda>t isUTC. 0)
               \<lparr>userNow = 60, aiNow = 70, errorNow = 80, sendStreakNow1 = 90, sendStreakNow2 = 90\<rparr>
               \<lparr>chunks = [utf16 ''O'', utf16 ''K''], throws = False\<rparr>
               (s1\<lparr>currentInput := utf16 ''again''\<rparr>)
    in messages s1 =
         [\<lparr>sender = ai, text' = utf16 ''Hello!'', id' = 10\<rparr>,
          \<lparr>sender = user, text' = utf16 ''I go school'', id' = 20\<rparr>,
          \<lparr>sender = ai, text' = utf16 ''You'', id' = 31\<rparr>,
          \<lparr>sender = ai, text' = fallbackMessage, id' = 40\<rparr>]
       \<and> \<not> isLoading s1
       \<and> messages s2 =
         messages s1 @
           [\<lparr>sender = user, text' = utf16 ''again'', id' = 60\<rparr>,
            \<lparr>sender = ai, text' = utf16 ''OK'', id' = 71\<rparr>])"
  using stream_failure_fallback
    [of "\<lparr>chat = True,
              messages = [\<lparr>sender = ai, text' = utf16 ''Hello!'', id' = 10\<rparr>],
              currentInput = utf16 ''I go school'', isLoading = False, storage = emptyStorage\<rparr>"
        "\<lparr>chunks = [utf16 ''You''], throws = True\<rparr>"
        "handleSendMessage (\<lambda>t isUTC. 0)
               \<lparr>userNow = 20, aiNow = 30, errorNow = 40, sendStreakNow1 = 50, sendStreakNow2 = 50\<rparr>
               \<lparr>chunks = [utf16 ''You''], throws = True\<rparr>
               \<lparr>chat = True,
                messages = [\<lparr>sender = ai, text' = utf16 ''Hello!'', id' = 10\<rparr>],
                currentInput = utf16 ''I go school'', isLoading = False, storage = emptyStorage\<rparr>"
        "\<lambda>t isUTC. 0"
        "\<lparr>userNow = 20, aiNow = 30, errorNow = 40, sendStreakNow1 = 50, sendStreakNow2 = 50\<rparr>"
        "utf16 ''again''"
        "\<lparr>chunks = [utf16 ''O'', utf16 ''K''], throws = False\<rparr>"
        "\<lparr>userNow = 60, aiNow = 70, errorNow = 80, sendStreakNow1 = 90, sendStreakNow2 = 90\<rparr>"]
  by (simp add: Let_def handleSendMessage_def setAiMessage_def utf16_def trim_def
      isWhiteSpace_def fallbackMessage_def)


section \<open>Properties of saving and ending a live session\<close>

lemma findIndex_Some:
  "findIndex P xs = Some i \<Longrightarrow> i < length xs \<and> P (xs ! i)"
proof (induction xs arbitrary: i)
  case Nil
  then show ?case by simp
next
  case (Cons x xs)
  then show ?case by (cases "P x") (auto split: if_splits)
qed

text \<open>The gamification counter touches the progress item only.\<close>

lemma historyItem_saveProgress: "historyItem (saveProgress p st) = historyItem st"
  and sessionsItem_saveProgress: "sessionsItem (saveProgress p st) = sessionsItem st"
  and writable_saveProgress: "writable (saveProgress p st) = writable st"
  by (simp_all add: saveProgress_def)

lemma gamification_other_items:
  "historyItem (incrementSpeakingSessions st) = historyItem st"
  "sessionsItem (incrementSpeakingSessions st) = sessionsItem st"
  "writable (incrementSpeakingSessions st) = writable st"
  "historyItem (updateStreak tza n1 n2 st) = historyItem st"
  "sessionsItem (updateStreak tza n1 n2 st) = sessionsItem st"
  "writable (updateStreak tza n1 n2 st) = writable st"
  by (simp_all add: incrementSpeakingSessions_def updateStreak_def Let_def
      historyItem_saveProgress sessionsItem_saveProgress writable_saveProgress)

lemma saveConversation_items:
  "sessionsItem (saveConversation c i d st) = sessionsItem st"
  "writable (saveConversation c i d st) = writable st"
  "writable st \<Longrightarrow> historyItem (saveConversation c i d st) =
     Stored (Conversation.extend c \<lparr>sc_id = i, sc_date = d\<rparr> # getSavedConversations st)"
  by (simp_all add: saveConversation_def Let_def)

text \<open>
  The checkpoint of \<^verbatim>\<open>endSession\<close>: when the component unmounts with an active
  session, the transcript it assembled is stored in a session of the sessions item,
  unless it holds nothing but status entries; ending the session otherwise discards the
  pending fragment and stores nothing.
\<close>

lemma autoSave_checkpoint:
  assumes "writable (localStorage s)" and "sessionsItem (localStorage s) \<noteq> Corrupt"
  shows "\<exists>sessions. autoSave history nowId nowDate s = (localStorage s)\<lparr>sessionsItem := Stored sessions\<rparr>
           \<and> (\<exists>x\<in>set sessions. cs_transcript x = history \<and> cs_date x = nowDate)"
proof -
  obtain ss where ss: "sessionsItem (localStorage s) = Absent \<and> ss = [] \<or>
                       sessionsItem (localStorage s) = Stored ss"
    using assms(2) by (cases "sessionsItem (localStorage s)") auto
  let ?idx = "(case activeSession s of
                 None \<Rightarrow> None
               | Some currentSession \<Rightarrow> findIndex (\<lambda>x. cs_id x = cs_id currentSession) ss)"
  let ?pushed = "\<lparr>cs_id = Some nowId,
                   name = Some [2437, 2472, 2497, 2486, 2496, 2482, 2472, 32, 2488, 2503,
                                2486, 2472],
                   cs_date = nowDate, cs_transcript = history\<rparr>"
  let ?sessions1 = "(case ?idx of
                      Some i \<Rightarrow> ss[i := (ss ! i)\<lparr>cs_transcript := history, cs_date := nowDate\<rparr>]
                    | None \<Rightarrow> ss @ [?pushed])"
  have a: "autoSave history nowId nowDate s = (localStorage s)\<lparr>sessionsItem := Stored ?sessions1\<rparr>"
    using ss assms(1) by (auto simp: autoSave_def Let_def)
  have "\<exists>x\<in>set ?sessions1. cs_transcript x = history \<and> cs_date x = nowDate"
  proof (cases ?idx)
    case None
    then show ?thesis by simp
  next
    case (Some i)
    then obtain cur :: ContinuableSession
      where "findIndex (\<lambda>x. cs_id x = cs_id cur) ss = Some i"
      by (cases "activeSession s") auto
    then have "i < length ss" using findIndex_Some by fastforce
    then have "(ss ! i)\<lparr>cs_transcript := history, cs_date := nowDate\<rparr> \<in> set ?sessions1"
      using Some by (simp add: set_update_memI)
    then show ?thesis by force
  qed
  then show ?thesis using a by blast
qed

lemma endSession_unmount:
  assumes "activeSession s \<noteq> None"
  shows "localStorage (endSession True False fresh nowId nowDate s) =
     (if filter (\<lambda>t. sender t \<noteq> status) (finalHistory fresh s) = [] then localStorage s
      else autoSave (finalHistory fresh s) nowId nowDate s)"
  using assms by (simp add: endSession_def Let_def)

lemma endSession_teardown:
  "liveTranscript (endSession False skipSave fresh nowId nowDate s) = None
   \<and> localStorage (endSession False skipSave fresh nowId nowDate s) = localStorage s"
  by (simp add: endSession_def Let_def)

text \<open>
  C10. With a pending fragment whose text is not the empty string, an active session, a
  storage that takes the write and a sessions item that parses, \<^verbatim>\<open>handleSave\<close> ends
  without error; the conversation it puts in front of the history and the session it
  stores both have the transcript followed by the pending fragment with its text as it
  is, whitespace-only or not. \<^verbatim>\<open>endSession\<close> assembles the transcript with the
  pending text trimmed, and without the fragment when nothing is left of it: that is
  the transcript of the session it stores when the component unmounts, and it stores
  nothing when this transcript has no entry of the user or the assistant. Ending the
  session without unmounting discards the pending fragment and stores nothing.
\<close>

theorem save_keeps_untrimmed_pending:
  assumes "liveTranscript s = Some live" and "text' live \<noteq> []"
    and "activeSession s = Some currentSession"
    and "writable (localStorage s)" and "sessionsItem (localStorage s) \<noteq> Corrupt"
    and "entry = \<lparr>sender = sender live, text' = text' live, id' = real_of_int (entryNow clock)\<rparr>"
    and "trimmed = transcriptionHistory s @
           (if trim (text' live) = [] then []
            else [\<lparr>sender = sender live, text' = trim (text' live), id' = fresh\<rparr>])"
  shows "fst (handleSave tza clock s) = None
     \<and> historyItem (localStorage (snd (handleSave tza clock s))) =
         Stored (\<lparr>type' = speak, transcript = transcriptionHistory s @ [entry],
                  sc_id = conversationId clock, sc_date = conversationDate clock\<rparr> #
                 getSavedConversations (localStorage s))
     \<and> (\<exists>sessions. sessionsItem (localStorage (snd (handleSave tza clock s))) = Stored sessions
          \<and> currentSession\<lparr>cs_transcript := transcriptionHistory s @ [entry],
                             cs_date := sessionDate clock\<rparr> \<in> set sessions)
     \<and> finalHistory fresh s = trimmed
     \<and> (if filter (\<lambda>t. sender t \<noteq> status) trimmed = []
        then localStorage (endSession True False fresh nowId nowDate s) = localStorage s
        else (\<exists>sessions.
                localStorage (endSession True False fresh nowId nowDate s) =
                  (localStorage s)\<lparr>sessionsItem := Stored sessions\<rparr>
                \<and> (\<exists>x\<in>set sessions. cs_transcript x = trimmed \<and> cs_date x = nowDate)))
     \<and> liveTranscript (endSession False skipSave fresh nowId nowDate s) = None
     \<and> localStorage (endSession False skipSave fresh nowId nowDate s) = localStorage s"
proof -
  let ?t = "transcriptionHistory s @ [entry]"
  have ft: "finalTranscript (entryNow clock) s = ?t"
    using assms(1,2,6) by (simp add: finalTranscript_def LiveTranscript.extend_def LiveTranscript.defs Transcription.defs)
  let ?st1 = "saveConversation \<lparr>type' = speak, transcript = ?t\<rparr>
                  (conversationId clock) (conversationDate clock) (localStorage s)"
  let ?st3 = "updateStreak tza (streakNow1 clock) (streakNow2 clock) (incrementSpeakingSessions ?st1)"
  have w3: "writable ?st3" using assms(4) by (simp add: gamification_other_items saveConversation_items)
  have se3: "sessionsItem ?st3 = sessionsItem (localStorage s)"
    by (simp add: gamification_other_items saveConversation_items)
  have h3: "historyItem ?st3 =
     Stored (\<lparr>type' = speak, transcript = ?t,
                  sc_id = conversationId clock, sc_date = conversationDate clock\<rparr> #
                 getSavedConversations (localStorage s))"
    using assms(4)
    by (simp add: gamification_other_items saveConversation_items Conversation.extend_def
        Conversation.defs SavedConversation.defs)
  obtain ss where ss: "sessionsItem (localStorage s) = Absent \<and> ss = [] \<or>
                       sessionsItem (localStorage s) = Stored ss"
    using assms(5) by (cases "sessionsItem (localStorage s)") auto
  let ?new = "currentSession\<lparr>cs_transcript := ?t, cs_date := sessionDate clock\<rparr>"
  let ?sessions1 = "(case findIndex (\<lambda>x. cs_id x = cs_id currentSession) ss of
                      Some i \<Rightarrow> ss[i := ?new] | None \<Rightarrow> ss @ [?new])"
  have mem: "?new \<in> set ?sessions1"
  proof (cases "findIndex (\<lambda>x. cs_id x = cs_id currentSession) ss")
    case None
    then show ?thesis by simp
  next
    case (Some i)
    then have "i < length ss" using findIndex_Some by fastforce
    then show ?thesis using Some by (simp add: set_update_memI)
  qed
  have hs: "handleSave tza clock s =
      (None, s\<lparr>localStorage := ?st3\<lparr>sessionsItem := Stored ?sessions1\<rparr>\<rparr>)"
    using assms(3) ss w3 se3 ft
    by (auto simp: handleSave_def Let_def)
  have fh: "finalHistory fresh s = trimmed"
    using assms(1,7) by (simp add: finalHistory_def)
  have active: "activeSession s \<noteq> None" using assms(3) by simp
  have unmount: "(if filter (\<lambda>t. sender t \<noteq> status) trimmed = []
        then localStorage (endSession True False fresh nowId nowDate s) = localStorage s
        else (\<exists>sessions.
                localStorage (endSession True False fresh nowId nowDate s) =
                  (localStorage s)\<lparr>sessionsItem := Stored sessions\<rparr>
                \<and> (\<exists>x\<in>set sessions. cs_transcript x = trimmed \<and> cs_date x = nowDate)))"
    using autoSave_checkpoint [OF assms(4,5), of trimmed nowId nowDate]
    by (simp add: endSession_unmount [OF active] fh)
  have teardown: "liveTranscript (endSession False skipSave fresh nowId nowDate s) = None
     \<and> localStorage (endSession False skipSave fresh nowId nowDate s) = localStorage s"
    by (rule endSession_teardown)
  from hs h3 mem have save: "fst (handleSave tza clock s) = None
     \<and> historyItem (localStorage (snd (handleSave tza clock s))) =
         Stored (\<lparr>type' = speak, transcript = transcriptionHistory s @ [entry],
                  sc_id = conversationId clock, sc_date = conversationDate clock\<rparr> #
                 getSavedConversations (localStorage s))
     \<and> (\<exists>sessions. sessionsItem (localStorage (snd (handleSave tza clock s))) = Stored sessions
          \<and> currentSession\<lparr>cs_transcript := transcriptionHistory s @ [entry],
                             cs_date := sessionDate clock\<rparr> \<in> set sessions)"
    by simp
  show ?thesis using save fh unmount teardown by blast
qed

text \<open>
  The user's "hi" committed and a single space pending: saving keeps the space as a
  second entry, the checkpoint at unmount holds "hi" alone.
\<close>

theorem save_keeps_untrimmed_pending_witness:
  "(let s = onmessages
              [(1, 0, userFragment (utf16 ''hi'')), (2, 0, turnCompleteMessage),
               (3, 0, userFragment (utf16 '' ''))] newSession;
        clock = \<lparr>entryNow = 5000, conversationId = 5001, conversationDate = 5002,
                 streakNow1 = 5003, streakNow2 = 5004, sessionDate = 5005\<rparr>;
        s1 = snd (handleSave (\<lambda>t isUTC. 0) clock s);
        s2 = endSession True False 9 6000 6001 s
    in liveTranscript s = Some \<lparr>sender = user, text' = utf16 '' ''\<rparr>
       \<and> map transcript (getSavedConversations (localStorage s1)) =
           [ [\<lparr>sender = user, text' = utf16 ''hi'', id' = 2\<rparr>,
              \<lparr>sender = user, text' = utf16 '' '', id' = 5000\<rparr>] ]
       \<and> map cs_transcript (case sessionsItem (localStorage s1) of Stored ss \<Rightarrow> ss | _ \<Rightarrow> []) =
           [ [\<lparr>sender = user, text' = utf16 ''hi'', id' = 2\<rparr>,
              \<lparr>sender = user, text' = utf16 '' '', id' = 5000\<rparr>] ]
       \<and> map cs_transcript (case sessionsItem (localStorage s2) of Stored ss \<Rightarrow> ss | _ \<Rightarrow> []) =
           [ [\<lparr>sender = user, text' = utf16 ''hi'', id' = 2\<rparr>] ])"
  using save_keeps_untrimmed_pending
    [of "onmessages
              [(1, 0, userFragment (utf16 ''hi'')), (2, 0, turnCompleteMessage),
               (3, 0, userFragment (utf16 '' ''))] newSession"
        "\<lparr>sender = user, text' = utf16 '' ''\<rparr>"
        "\<lparr>cs_id = Some 1000,
          name = Some [2472, 2468, 2497, 2472, 32, 2437, 2472, 2497, 2486, 2496, 2482, 2472, 32,
                       2488, 2503, 2486, 2472],
          cs_date = 1000, cs_transcript = []\<rparr>"
        "\<lparr>sender = user, text' = utf16 '' '', id' = 5000\<rparr>"
        "\<lparr>entryNow = 5000, conversationId = 5001, conversationDate = 5002,
                 streakNow1 = 5003, streakNow2 = 5004, sessionDate = 5005\<rparr>"
        "[\<lparr>sender = user, text' = utf16 ''hi'', id' = 2\<rparr>]" 9
        "\<lambda>t isUTC. 0" 6000 6001 False]
  by (simp add: Let_def newSession_def handleStartNewSession_def startSession_def mount_def
      emptyStorage_def userFragment_def turnCompleteMessage_def onmessage_def reconcile_def
      playAudio_def onInterrupted_def onInputTranscription_def onTurnComplete_def
      addTranscription_def awardPoints_def addPoints_def
      handleSave_def finalTranscript_def endSession_def autoSave_def
      finalHistory_def saveConversation_def getSavedConversations_def
      incrementSpeakingSessions_def updateStreak_def getProgress_def getDefaultProgress_def
      saveProgress_def utcDate_def msPerDay_def setDatePrevious_def UTC_def LocalTime_def
      LiveTranscript.extend_def LiveTranscript.defs Transcription.defs
      Conversation.extend_def Conversation.defs SavedConversation.defs
      utf16_def trim_def isWhiteSpace_def)

end
